theory Spec2Isabelle
  imports Complex_Main "HOL-Library.Word" "HOL-Library.Multiset" "HOL-Library.List_Lexorder"
begin

section \<open>JavaScript values and exceptions\<close>

text \<open>
  A JavaScript string is a sequence of UTF-16 code units. \<open>str\<close> writes an ASCII literal
  of the source as such a sequence.
\<close>

type_synonym js_string = "16 word list"

definition str :: "string \<Rightarrow> js_string" where
  "str s = map of_char s"

text \<open>
  The values \<open>JSON.parse\<close> can produce, and \<open>undefined\<close> (what reading a missing
  property gives). An object is its list of members; its keys are distinct.
\<close>

datatype js =
    JUndefined
  | JNull
  | JBool bool
  | JNum rat
  | JStr js_string
  | JArr "js list"
  | JObj "(js_string \<times> js) list"

text \<open>The truthiness test of \<open>if (v)\<close> and \<open>v ? a : b\<close>.\<close>

fun truthy :: "js \<Rightarrow> bool" where
  "truthy JUndefined = False"
| "truthy JNull = False"
| "truthy (JBool b) = b"
| "truthy (JNum x) = (x \<noteq> 0)"
| "truthy (JStr s) = (s \<noteq> [])"
| "truthy (JArr xs) = True"
| "truthy (JObj kvs) = True"

text \<open>
  What the code throws. \<open>MessageException\<close> carries the HTTP code and the message its
  constructor hands to the base class; \<open>Error name message\<close> is any other error object
  (a native \<open>TypeError\<close> or \<open>SyntaxError\<close>, a transport error, an exception of a
  collaborator), with its \<open>name\<close> and \<open>message\<close> properties.
\<close>

datatype exception =
    HttpException int js
  | InternalServerException "js list"
  | MessageException int js_string
  | Error js_string js_string

text \<open>\<open>new MessageException(message)\<close>: \<open>super(404, `${message}`)\<close>.\<close>

definition new_MessageException :: "js_string \<Rightarrow> exception" where
  "new_MessageException message = MessageException 404 message"

text \<open>\<open>new NotImplementedException()\<close>: \<open>super('Not implemented.')\<close>.\<close>

definition new_NotImplementedException :: exception where
  "new_NotImplementedException = new_MessageException (str ''Not implemented.'')"

text \<open>A name between single quotes (code unit 39), as the messages of Node show it.\<close>

definition quoted :: "js_string \<Rightarrow> js_string" where
  "quoted name = 39 # name @ [39]"

text \<open>
  Reading the property \<open>k\<close> of \<open>v\<close>, for the property names the code reads from
  parsed JSON (\<open>error\<close>, \<open>result\<close>, \<open>code\<close>, \<open>message\<close>): \<open>null\<close> and
  \<open>undefined\<close> throw a \<open>TypeError\<close>, an object gives the member or \<open>undefined\<close>,
  every other value gives \<open>undefined\<close>.
\<close>

fun member :: "js \<Rightarrow> js_string \<Rightarrow> exception + js" where
  "member JUndefined k =
     Inl (Error (str ''TypeError'')
            (str ''Cannot read property '' @ quoted k @ str '' of undefined''))"
| "member JNull k =
     Inl (Error (str ''TypeError'')
            (str ''Cannot read property '' @ quoted k @ str '' of null''))"
| "member (JObj kvs) k = Inr (case map_of kvs k of None \<Rightarrow> JUndefined | Some v \<Rightarrow> v)"
| "member v k = Inr JUndefined"

section \<open>CoreRpcService\<close>

subsection \<open>The transport\<close>

text \<open>
  The body of an HTTP response, by what \<open>JSON.parse\<close> makes of it: \<open>Json_text v\<close> is
  a text that parses to \<open>v\<close>; \<open>Not_json t m\<close> is a text \<open>t\<close> (possibly empty) that
  \<open>JSON.parse\<close> rejects with a \<open>SyntaxError\<close> of message \<open>m\<close>.
\<close>

datatype content = Not_json js_string js_string | Json_text js

fun content_truthy :: "content \<Rightarrow> bool" where
  "content_truthy (Not_json t m) = (t \<noteq> [])"
| "content_truthy (Json_text v) = True"

fun JSON_parse :: "content \<Rightarrow> exception + js" where
  "JSON_parse (Not_json t m) = Inl (Error (str ''SyntaxError'') m)"
| "JSON_parse (Json_text v) = Inr v"

record response =
  statusCode :: int
  statusMessage :: js_string
  content :: content

text \<open>The posted JSON-RPC request: \<open>{jsonrpc: '2.0', method, params, id}\<close>.\<close>

record rpc_request =
  rpc_method :: js_string
  rpc_params :: "js list"
  rpc_id :: nat

text \<open>
  What lies between \<open>call\<close> and the daemon, for a request. Before it posts, \<open>call\<close>
  serialises the request with \<open>JSON.stringify\<close> and asks \<open>getUrl\<close> and
  \<open>getOptions\<close> (the cookie service behind the latter is not among the sources): an
  exception thrown there is \<open>Inl e\<close>. Then
  \<open>WebRequest.post\<close> answers: its promise rejects with an error object, given by its
  name and message (\<open>Inr (Inl (name, message))\<close>), or resolves with a response
  (\<open>Inr (Inr response)\<close>).
\<close>

type_synonym transport = "rpc_request \<Rightarrow> exception + (js_string \<times> js_string) + response"

subsection \<open>call\<close>

text \<open>The callback of \<open>.then\<close> in \<open>call\<close>.\<close>

definition call_then :: "response \<Rightarrow> exception + js" where
  "call_then response =
     (if statusCode response \<noteq> 200 then
        (case (if content_truthy (content response) then JSON_parse (content response)
               else Inr (JStr (statusMessage response))) of
           Inl e \<Rightarrow> Inl e
         | Inr message \<Rightarrow> Inl (HttpException (statusCode response) message))
      else
        (case JSON_parse (content response) of
           Inl e \<Rightarrow> Inl e
         | Inr jsonRpcResponse \<Rightarrow>
             (case member jsonRpcResponse (str ''error'') of
                Inl e \<Rightarrow> Inl e
              | Inr err \<Rightarrow>
                  if truthy err then
                    (case member err (str ''code'') of
                       Inl e \<Rightarrow> Inl e
                     | Inr code \<Rightarrow>
                         (case member err (str ''message'') of
                            Inl e \<Rightarrow> Inl e
                          | Inr msg \<Rightarrow> Inl (InternalServerException [code, msg])))
                  else member jsonRpcResponse (str ''result''))))"

text \<open>
  The callback of \<open>.catch\<close>: an \<open>HttpException\<close> or \<open>InternalServerException\<close> is
  thrown again, every other error is wrapped as
  \<open>new InternalServerException([error.name, error.message])\<close>. (A \<open>MessageException\<close>
  cannot reach this handler; its name is its class name.)
\<close>

fun call_catch :: "exception \<Rightarrow> exception" where
  "call_catch (HttpException c m) = HttpException c m"
| "call_catch (InternalServerException xs) = InternalServerException xs"
| "call_catch (Error name message) = InternalServerException [JStr name, JStr message]"
| "call_catch (MessageException c message) =
     InternalServerException [JStr (str ''MessageException''), JStr message]"

text \<open>
  \<open>call(method, params)\<close>. The state is the module's counter \<open>RPC_REQUEST_ID\<close>, read
  and incremented for every call. What is thrown before the post is outside the promise
  chain, so it leaves \<open>call\<close> as it is; the handler of \<open>.catch\<close> sees the rejections
  of the post and what the callback of \<open>.then\<close> throws.
\<close>

definition call :: "transport \<Rightarrow> nat \<Rightarrow> js_string \<Rightarrow> js list \<Rightarrow> (exception + js) \<times> nat" where
  "call post RPC_REQUEST_ID method' params' =
     (let postData = \<lparr>rpc_method = method', rpc_params = params', rpc_id = RPC_REQUEST_ID\<rparr> in
      (case post postData of
         Inl e \<Rightarrow> Inl e
       | Inr (Inl (name, message)) \<Rightarrow> Inl (call_catch (Error name message))
       | Inr (Inr response) \<Rightarrow>
           (case call_then response of
              Inl e \<Rightarrow> Inl (call_catch e)
            | Inr result \<Rightarrow> Inr result),
       RPC_REQUEST_ID + 1))"

subsection \<open>signMessage and verifyMessage\<close>

text \<open>\<open>s.split('')\<close>: the array of the one-unit strings of \<open>s\<close>.\<close>

definition String_split :: "js_string \<Rightarrow> js_string list" where
  "String_split s = map (\<lambda>c. [c]) s"

text \<open>
  \<open>xs.sort()\<close> with no comparator: the elements in ascending order of their code units,
  a string before its extensions.
\<close>

definition Array_sort :: "js_string list \<Rightarrow> js_string list" where
  "Array_sort xs = sort xs"

text \<open>\<open>xs.toString()\<close>: the elements joined by commas.\<close>

fun Array_toString :: "js_string list \<Rightarrow> js_string" where
  "Array_toString [] = []"
| "Array_toString [x] = x"
| "Array_toString (x # y # ys) = x @ 44 # Array_toString (y # ys)"

text \<open>
  \<open>JSON.stringify(message).split('')\<close> needs the serialisation of the message: the
  parameter \<open>stringify\<close> gives it, or the error thrown when there is none (a circular
  object makes \<open>JSON.stringify\<close> throw, \<open>undefined\<close> has no \<open>split\<close>).
\<close>

definition signMessage ::
  "('m \<Rightarrow> exception + js_string) \<Rightarrow> transport \<Rightarrow> nat \<Rightarrow> js_string \<Rightarrow> 'm
     \<Rightarrow> (exception + js) \<times> nat" where
  "signMessage stringify post RPC_REQUEST_ID address message =
     (case stringify message of
        Inl e \<Rightarrow> (Inl e, RPC_REQUEST_ID)
      | Inr json \<Rightarrow>
          (let signableMessage = Array_toString (Array_sort (String_split json))
           in call post RPC_REQUEST_ID (str ''signmessage'')
                [JStr address, JStr signableMessage]))"

definition verifyMessage ::
  "('m \<Rightarrow> exception + js_string) \<Rightarrow> transport \<Rightarrow> nat \<Rightarrow> js_string \<Rightarrow> js_string \<Rightarrow> 'm
     \<Rightarrow> (exception + js) \<times> nat" where
  "verifyMessage stringify post RPC_REQUEST_ID address signature message =
     (case stringify message of
        Inl e \<Rightarrow> (Inl e, RPC_REQUEST_ID)
      | Inr json \<Rightarrow>
          (let signableMessage = Array_toString (Array_sort (String_split json))
           in call post RPC_REQUEST_ID (str ''verifymessage'')
                [JStr address, JStr signature, JStr signableMessage]))"

text \<open>
  The daemon is outside the repository. What the claims about signatures take from it:
  it accepts, for an address and a string, the signature it gave for them.
\<close>

definition daemon_accepts_own_signatures :: "transport \<Rightarrow> bool" where
  "daemon_accepts_own_signatures post \<longleftrightarrow>
     (\<forall>i j address signable signature.
        fst (call post i (str ''signmessage'') [JStr address, JStr signable]) = Inr (JStr signature)
        \<longrightarrow> fst (call post j (str ''verifymessage'')
                   [JStr address, JStr signature, JStr signable]) = Inr (JBool True))"

subsection \<open>Example transports and messages\<close>

text \<open>
  A daemon that is busy answers 503 with a plain-text body, which \<open>JSON.parse\<close>
  rejects.
\<close>

definition busy_daemon :: transport where
  "busy_daemon req =
     Inr (Inr \<lparr>statusCode = 503, statusMessage = str ''Service Unavailable'',
               content = Not_json (str ''Work queue depth exceeded'')
                           (str ''Unexpected token W in JSON at position 0'')\<rparr>)"

text \<open>
  Two more answers that are not 200: a 401 whose body is empty, which \<open>JSON.parse\<close>
  rejects as well (the empty string is falsy, so the code does not parse it), and a
  404 whose body is the JSON-RPC error of the daemon.
\<close>

definition unauthorized_daemon :: transport where
  "unauthorized_daemon req =
     Inr (Inr \<lparr>statusCode = 401, statusMessage = str ''Unauthorized'',
               content = Not_json [] (str ''Unexpected end of JSON input'')\<rparr>)"

definition method_not_found :: js where
  "method_not_found =
     JObj [(str ''result'', JNull),
           (str ''error'', JObj [(str ''code'', JNum (- 32601)),
                                 (str ''message'', JStr (str ''Method not found''))]),
           (str ''id'', JNum 0)]"

definition strict_daemon :: transport where
  "strict_daemon req =
     Inr (Inr \<lparr>statusCode = 404, statusMessage = str ''Not Found'',
               content = Json_text method_not_found\<rparr>)"

text \<open>A successful JSON-RPC response, with the \<open>error: null\<close> member the daemon sends.\<close>

definition ok_response :: "nat \<Rightarrow> js \<Rightarrow> response" where
  "ok_response i r = \<lparr>statusCode = 200, statusMessage = str ''OK'',
      content = Json_text (JObj [(str ''result'', r), (str ''error'', JNull), (str ''id'', JNum (of_nat i))])\<rparr>"

text \<open>
  A toy daemon: the signature of a string for an address is the address followed by
  the string.
\<close>

definition example_daemon :: transport where
  "example_daemon req =
     (if rpc_method req = str ''signmessage'' then
        (case rpc_params req of
           [JStr address, JStr signable] \<Rightarrow>
             Inr (Inr (ok_response (rpc_id req) (JStr (address @ signable))))
         | _ \<Rightarrow> Inr (Inl (str ''Error'', str ''socket hang up'')))
      else if rpc_method req = str ''verifymessage'' then
        (case rpc_params req of
           [JStr address, JStr signature, JStr signable] \<Rightarrow>
             Inr (Inr (ok_response (rpc_id req) (JBool (signature = address @ signable))))
         | _ \<Rightarrow> Inr (Inl (str ''Error'', str ''socket hang up'')))
      else if rpc_method req = str ''getnewaddress'' then
        Inr (Inr (ok_response (rpc_id req) (JStr (str ''pNewAddress''))))
      else if rpc_method req = str ''smsgaddlocaladdress'' then
        Inr (Inr (ok_response (rpc_id req)
                    (JStr (str ''Receiving messages enabled for address.''))))
      else Inr (Inl (str ''Error'', str ''socket hang up'')))"

text \<open>The serialisations of two small messages.\<close>

definition example_stringify :: "js \<Rightarrow> exception + js_string" where
  "example_stringify message =
     (if message = JObj [(str ''a'', JStr (str ''b''))] then Inr (str ''{\"a\":\"b\"}'')
      else if message = JObj [(str ''b'', JStr (str ''a''))] then Inr (str ''{\"b\":\"a\"}'')
      else Inl (Error (str ''TypeError'') (str ''Converting circular structure to JSON'')))"

section \<open>Domain data\<close>

subsection \<open>Enumerations\<close>

text \<open>
  The members of \<open>CreatableModel\<close> that the service names. The field \<open>model\<close> of a
  request is not checked against the enumeration at run time: \<open>OTHER v\<close> is any other
  value it may hold.
\<close>

datatype CreatableModel =
    LISTINGITEMTEMPLATE
  | LISTINGITEM
  | ACTIONMESSAGE
  | PROFILE
  | ITEMCATEGORY
  | FAVORITEITEM
  | ITEMINFORMATION
  | BID
  | PAYMENTINFORMATION
  | ITEMIMAGE
  | ORDER
  | PROPOSAL
  | OTHER js

text \<open>
  \<open>BidMessageType\<close>: the bid, bid-accept, bid-reject and bid-cancel messages. Its
  members are non-empty strings, hence truthy.
\<close>

datatype BidMessageType = MPA_BID | MPA_ACCEPT | MPA_REJECT | MPA_CANCEL

datatype ProposalType = ITEM_VOTE | PUBLIC_VOTE

text \<open>The \<open>dataId\<close> of a bid data: a literal string or a member of \<open>BidDataValue\<close>.\<close>

datatype bid_data_id =
    DataId js_string
  | BUYER_OUTPUTS
  | BUYER_PUBKEY
  | BUYER_CHANGE_ADDRESS
  | BUYER_CHANGE_AMOUNT
  | BUYER_RELEASE_ADDRESS
  | SELLER_PUBKEY
  | SELLER_OUTPUTS
  | SHIPPING_ADDRESS_FIRST_NAME
  | SHIPPING_ADDRESS_LAST_NAME
  | SHIPPING_ADDRESS_ADDRESS_LINE1
  | SHIPPING_ADDRESS_ADDRESS_LINE2
  | SHIPPING_ADDRESS_CITY
  | SHIPPING_ADDRESS_STATE
  | SHIPPING_ADDRESS_ZIP_CODE
  | SHIPPING_ADDRESS_COUNTRY

subsection \<open>Resources and create requests\<close>

text \<open>
  Field names carry the name of their interface or class, shortened, as a prefix: a
  field of the source such as \<open>id\<close> or \<open>hash\<close> belongs to several of them.
\<close>

record Profile =
  Profile_id :: int
  Profile_address :: js_string

record Market =
  Market_id :: int
  Market_address :: js_string

record ListingItemTemplateCreateRequest =
  tcr_itemInformation :: js
  tcr_paymentInformation :: js
  tcr_messagingInformation :: js
  tcr_listingItemObjects :: js
  tcr_profile_id :: int

record ListingItemCreateRequest =
  lcr_seller :: js
  lcr_market_id :: int
  lcr_listing_item_template_id :: "int option"
  lcr_itemInformation :: js
  lcr_paymentInformation :: js
  lcr_messagingInformation :: js
  lcr_listingItemObjects :: js
  lcr_expiryTime :: int
  lcr_postedAt :: int
  lcr_expiredAt :: int
  lcr_receivedAt :: int

text \<open>A stored listing item: its local id, its hash, and what its request gave.\<close>

record ListingItem =
  ListingItem_id :: int
  ListingItem_hash :: js_string
  ListingItem_data :: ListingItemCreateRequest

text \<open>
  A listing item template as \<open>toJSON\<close> gives it, with its related profile and
  listing items.
\<close>

record ListingItemTemplate =
  ListingItemTemplate_id :: int
  ListingItemTemplate_hash :: js_string
  ListingItemTemplate_Profile :: Profile
  ListingItemTemplate_ListingItems :: "ListingItem list"
  ListingItemTemplate_data :: ListingItemTemplateCreateRequest

record BidCreateRequest =
  bcr_action :: BidMessageType
  bcr_address :: js
  bcr_bidder :: js
  bcr_bidDatas :: "(bid_data_id \<times> js) list"
  bcr_listing_item_id :: "int option"

record Bid =
  Bid_id :: int
  Bid_action :: BidMessageType
  Bid_bidder :: js
  Bid_listing_item_id :: "int option"
  Bid_ShippingAddress :: js
  Bid_BidDatas :: "(bid_data_id \<times> js) list"

text \<open>
  \<open>OrderCreateRequest\<close>: the order items, which the generator may empty, and the
  other fields the factory fills.
\<close>

record OrderCreateRequest =
  ocr_orderItems :: "js list"
  ocr_fields :: js

record Order =
  Order_id :: int
  Order_data :: OrderCreateRequest

record ProposalOptionCreateRequest =
  po_proposalHash :: js_string
  po_optionId :: int
  po_description :: js_string

record ProposalCreateRequest =
  pcr_submitter :: js_string
  pcr_type :: ProposalType
  pcr_item :: "js_string option"
  pcr_title :: js_string
  pcr_description :: js_string
  pcr_timeStart :: rat
  pcr_postedAt :: rat
  pcr_receivedAt :: rat
  pcr_expiredAt :: rat
  pcr_hash :: "js_string option"
  pcr_options :: "ProposalOptionCreateRequest list"

subsection \<open>Generator parameters\<close>

text \<open>
  A string parameter that may be \<open>null\<close> is an option; the code tests it for
  truthiness, which the empty string fails as well.
\<close>

fun truthy_string :: "js_string option \<Rightarrow> bool" where
  "truthy_string None = False"
| "truthy_string (Some s) = (s \<noteq> [])"

record GenerateListingItemTemplateParams =
  tp_generateItemInformation :: bool
  tp_generatePaymentInformation :: bool
  tp_generateMessagingInformation :: bool
  tp_generateListingItemObjects :: bool
  tp_generateEscrow :: bool
  tp_generateItemPrice :: bool
  tp_profileId :: "int option"
  tp_generateListingItem :: bool
  tp_marketId :: "int option"

record GenerateListingItemParams =
  lp_generateItemInformation :: bool
  lp_generatePaymentInformation :: bool
  lp_generateMessagingInformation :: bool
  lp_generateListingItemObjects :: bool
  lp_generateEscrow :: bool
  lp_generateItemPrice :: bool
  lp_listingItemTemplateHash :: "js_string option"
  lp_seller :: "js_string option"

record GenerateBidParams =
  bp_generateListingItemTemplate :: bool
  bp_generateListingItem :: bool
  bp_listingItemHash :: "js_string option"
  bp_action :: "BidMessageType option"
  bp_bidder :: "js_string option"
  bp_listingItemSeller :: "js_string option"

record GenerateOrderParams =
  op_generateListingItemTemplate :: bool
  op_generateListingItem :: bool
  op_generateBid :: bool
  op_generateOrderItem :: bool
  op_bidId :: "int option"
  op_listingItemSeller :: "js_string option"

record GenerateProposalParams =
  pp_listingItemHash :: "js_string option"
  pp_generatePastProposal :: bool
  pp_submitter :: "js_string option"

section \<open>ObjectHash\<close>

text \<open>
  Modelled from the spec: the class \<open>ObjectHash\<close> (\<open>core/helpers/ObjectHash\<close>) is
  not among the sources; only calls of \<open>ObjectHash.getHash(object, type)\<close> are. The
  spec has it canonicalize a domain object (listing, template, proposal) into a
  deterministic content hash that serves as a natural key across the peer network,
  primary keys being local to each node. Which members of an object the canonical form
  reads is not said, so the hash is a parameter of this development (the field
  \<open>ObjectHash_getHash\<close> of the environment below): a function of the object as it is
  passed and of its \<open>HashableObjectType\<close>, the two being one tagged value here. The
  types are those of the calls that the generators reach. (\<open>create\<close> hands the
  template service a flag \<open>timestampedHash\<close> besides the request; the generators
  never do, and a request that \<open>create\<close> takes is an opaque value below.)
\<close>

datatype hashable =
    LISTINGITEM_CREATEREQUEST ListingItemCreateRequest
  | LISTINGITEMTEMPLATE_CREATEREQUEST ListingItemTemplateCreateRequest
  | PROPOSAL_CREATEREQUEST ProposalCreateRequest

section \<open>The world of the services\<close>

text \<open>
  The state the services act on: the request counter of the RPC client, the tables of
  the entities the generators create, and the number of readings taken so far from the
  sources outside the program (the clock, Faker, the random numbers).
\<close>

record world =
  RPC_REQUEST_ID :: nat
  readings :: nat
  listing_item_templates :: "ListingItemTemplate list"
  listing_items :: "ListingItem list"
  bids :: "Bid list"
  orders :: "Order list"

text \<open>
  What lies outside the repository's sources: the daemon, the clock, the generators of
  random data, the services of entities that the generators only read, the order
  factory, the object hash, and the parameter
  objects the classes \<open>GenerateBidParams\<close>, \<open>GenerateListingItemTemplateParams\<close> and
  \<open>GenerateListingItemParams\<close> construct without arguments. A reading is indexed by
  its position in the sequence of readings.
\<close>

record env =
  rpc :: transport
  Date_getTime :: "nat \<Rightarrow> int"
  Faker :: "nat \<Rightarrow> js_string"
  generated :: "nat \<Rightarrow> js"
  random_source :: "nat \<Rightarrow> rat \<Rightarrow> rat \<Rightarrow> rat"
  profileService_getDefault :: "exception + Profile"
  profileService_findOne :: "int \<Rightarrow> exception + Profile"
  marketService_getDefault :: "exception + Market"
  marketService_findOne :: "int \<Rightarrow> exception + Market"
  orderFactory_getModelFromBid :: "Bid \<Rightarrow> exception + OrderCreateRequest"
  ObjectHash_getHash :: "hashable \<Rightarrow> js_string"
  new_GenerateBidParams :: GenerateBidParams
  new_GenerateListingItemTemplateParams :: GenerateListingItemTemplateParams
  new_GenerateListingItemParams :: GenerateListingItemParams

subsection \<open>Asynchronous actions\<close>

text \<open>
  An \<open>async\<close> function acts on the world and resolves with a value or rejects with
  an exception; what it did before it rejected stays done.
\<close>

type_synonym 'a action = "world \<Rightarrow> (exception + 'a) \<times> world"

definition resolve :: "'a \<Rightarrow> 'a action" where
  "resolve x w = (Inr x, w)"

definition reject :: "exception \<Rightarrow> 'a action" where
  "reject e w = (Inl e, w)"

definition settle :: "exception + 'a \<Rightarrow> 'a action" where
  "settle r w = (r, w)"

definition await :: "'a action \<Rightarrow> ('a \<Rightarrow> 'b action) \<Rightarrow> 'b action" where
  "await m f w = (case m w of (Inl e, w') \<Rightarrow> (Inl e, w') | (Inr x, w') \<Rightarrow> f x w')"

text \<open>
  \<open>for (let i = amount; i > 0; i--) { items.push(await body) }\<close>, for a body that does
  not read \<open>i\<close>; the first argument is the number of rounds left.
\<close>

fun for_loop :: "nat \<Rightarrow> 'a action \<Rightarrow> 'a list \<Rightarrow> 'a list action" where
  "for_loop 0 body items = resolve items"
| "for_loop (Suc n) body items = await body (\<lambda>x. for_loop n body (items @ [x]))"

text \<open>One reading from outside: its index, and the count moves on.\<close>

definition reading :: "nat action" where
  "reading w = (Inr (readings w), w\<lparr>readings := readings w + 1\<rparr>)"

definition new_Date_getTime :: "env \<Rightarrow> int action" where
  "new_Date_getTime env = await reading (\<lambda>n. resolve (Date_getTime env n))"

definition Faker_string :: "env \<Rightarrow> js_string action" where
  "Faker_string env = await reading (\<lambda>n. resolve (Faker env n))"

text \<open>\<open>_.random(lower, upper, false)\<close>.\<close>

definition lodash_random :: "env \<Rightarrow> rat \<Rightarrow> rat \<Rightarrow> rat action" where
  "lodash_random env lower upper = await reading (\<lambda>n. resolve (random_source env n lower upper))"

text \<open>
  What the generators take from \<open>_.random\<close>: a number between its bounds, inclusive,
  the bounds swapped when the first exceeds the second.
\<close>

definition random_within_bounds :: "env \<Rightarrow> bool" where
  "random_within_bounds env \<longleftrightarrow>
     (\<forall>n lower upper. min lower upper \<le> random_source env n lower upper
                     \<and> random_source env n lower upper \<le> max lower upper)"

subsection \<open>The RPC client in the world\<close>

definition coreRpcService_call :: "env \<Rightarrow> js_string \<Rightarrow> js list \<Rightarrow> js action" where
  "coreRpcService_call env method' params' w =
     (case call (rpc env) (RPC_REQUEST_ID w) method' params' of
        (r, n) \<Rightarrow> (r, w\<lparr>RPC_REQUEST_ID := n\<rparr>))"

text \<open>\<open>getNewAddress(params = [], smsgAddress = true)\<close>.\<close>

definition getNewAddress :: "env \<Rightarrow> js list \<Rightarrow> bool \<Rightarrow> js action" where
  "getNewAddress env params' smsgAddress =
     await (coreRpcService_call env (str ''getnewaddress'') params') (\<lambda>response.
       if smsgAddress then
         await (coreRpcService_call env (str ''smsgaddlocaladdress'') [response])
           (\<lambda>addLocalAddressResponse. resolve response)
       else resolve response)"


section \<open>Domain services\<close>

text \<open>
  Modelled from the spec: the services of listing item templates, listing items, bids
  and orders are not among the sources. The spec has each own one mapped entity and offer
  create and find. Here a table is the list of its rows in the order of creation,
  \<open>create\<close> appends a row under a primary key above every key of the table, \<open>findOne\<close>
  gives the row of a key and rejects when there is none, \<open>findOneByHash\<close> gives the row
  of a hash, or \<open>null\<close>.
\<close>

definition next_id :: "int list \<Rightarrow> int" where
  "next_id ids = fold max ids 0 + 1"

definition NotFoundException :: exception where
  "NotFoundException = Error (str ''NotFoundException'') (str ''Entity not found'')"

definition listingItemService_findOneByHash :: "js_string \<Rightarrow> ListingItem option action" where
  "listingItemService_findOneByHash hash w =
     (Inr (find (\<lambda>i. ListingItem_hash i = hash) (listing_items w)), w)"

text \<open>
  Modelled from the spec: creating a listing item stores the content hash of its
  request with it.
\<close>

definition listingItemService_create :: "env \<Rightarrow> ListingItemCreateRequest \<Rightarrow> ListingItem action" where
  "listingItemService_create env body w =
     (let item = \<lparr>ListingItem_id = next_id (map ListingItem_id (listing_items w)),
                  ListingItem_hash = ObjectHash_getHash env (LISTINGITEM_CREATEREQUEST body),
                  ListingItem_data = body\<rparr>
      in (Inr item, w\<lparr>listing_items := listing_items w @ [item]\<rparr>))"

text \<open>
  Modelled from the spec: a template as \<open>toJSON\<close> gives it carries, as its related
  listing items, the stored listing items that name it.
\<close>

definition with_related :: "world \<Rightarrow> ListingItemTemplate \<Rightarrow> ListingItemTemplate" where
  "with_related w t =
     t\<lparr>ListingItemTemplate_ListingItems :=
         filter (\<lambda>i. lcr_listing_item_template_id (ListingItem_data i)
                        = Some (ListingItemTemplate_id t))
           (listing_items w)\<rparr>"

text \<open>
  Modelled from the spec: creating a template stores the content hash of its request
  with it, and relates it to the profile of its \<open>profile_id\<close>.
\<close>

definition listingItemTemplateService_create ::
  "env \<Rightarrow> ListingItemTemplateCreateRequest \<Rightarrow> ListingItemTemplate action" where
  "listingItemTemplateService_create env body w =
     (case profileService_findOne env (tcr_profile_id body) of
        Inl e \<Rightarrow> (Inl e, w)
      | Inr profile \<Rightarrow>
          (let template =
                 \<lparr>ListingItemTemplate_id = next_id (map ListingItemTemplate_id (listing_item_templates w)),
                  ListingItemTemplate_hash =
                    ObjectHash_getHash env (LISTINGITEMTEMPLATE_CREATEREQUEST body),
                  ListingItemTemplate_Profile = profile,
                  ListingItemTemplate_ListingItems = [],
                  ListingItemTemplate_data = body\<rparr>
           in (Inr (with_related w template),
               w\<lparr>listing_item_templates := listing_item_templates w @ [template]\<rparr>)))"

definition listingItemTemplateService_findOne :: "int \<Rightarrow> ListingItemTemplate action" where
  "listingItemTemplateService_findOne id' w =
     (case find (\<lambda>t. ListingItemTemplate_id t = id') (listing_item_templates w) of
        None \<Rightarrow> (Inl NotFoundException, w)
      | Some t \<Rightarrow> (Inr (with_related w t), w))"

definition listingItemTemplateService_findOneByHash ::
  "js_string \<Rightarrow> ListingItemTemplate option action" where
  "listingItemTemplateService_findOneByHash hash w =
     (Inr (map_option (with_related w)
             (find (\<lambda>t. ListingItemTemplate_hash t = hash) (listing_item_templates w))), w)"

definition bidService_create :: "BidCreateRequest \<Rightarrow> Bid action" where
  "bidService_create body w =
     (let bid = \<lparr>Bid_id = next_id (map Bid_id (bids w)),
                 Bid_action = bcr_action body,
                 Bid_bidder = bcr_bidder body,
                 Bid_listing_item_id = bcr_listing_item_id body,
                 Bid_ShippingAddress = bcr_address body,
                 Bid_BidDatas = bcr_bidDatas body\<rparr>
      in (Inr bid, w\<lparr>bids := bids w @ [bid]\<rparr>))"

definition bidService_findOne :: "int option \<Rightarrow> Bid action" where
  "bidService_findOne id' w =
     (case find (\<lambda>b. Some (Bid_id b) = id') (bids w) of
        None \<Rightarrow> (Inl NotFoundException, w)
      | Some b \<Rightarrow> (Inr b, w))"

definition orderService_create :: "OrderCreateRequest \<Rightarrow> Order action" where
  "orderService_create body w =
     (let order = \<lparr>Order_id = next_id (map Order_id (orders w)), Order_data = body\<rparr>
      in (Inr order, w\<lparr>orders := orders w @ [order]\<rparr>))"

section \<open>TestDataService\<close>

subsection \<open>create and generate\<close>

record TestDataCreateRequest =
  cr_model :: CreatableModel
  cr_data :: js
  cr_timestampedHash :: js

record TestDataGenerateRequest =
  gr_model :: CreatableModel
  gr_amount :: int
  gr_withRelated :: js
  gr_generateParams :: "js list"

text \<open>
  The service call \<open>create\<close> delegates to, with the arguments it hands over
  (\<open>body.data\<close>, and \<open>body.timestampedHash\<close> for a template).
\<close>

datatype service_call =
    ListingItemTemplateService_create js js
  | ListingItemService_create js
  | ActionMessageService_create js
  | ProfileService_create js
  | ItemCategoryService_create js
  | FavoriteItemService_create js
  | ItemInformationService_create js
  | BidService_create js
  | PaymentInformationService_create js
  | ItemImageService_create js

text \<open>
  \<open>create\<close>. The decorator \<open>@validate()\<close> checks the body before the method runs;
  its code is not among the sources, so it is the parameter \<open>validate\<close>, which gives
  the exception it throws, if any. The services are the parameter \<open>services\<close>.
\<close>

definition create ::
  "(TestDataCreateRequest \<Rightarrow> exception option) \<Rightarrow> (service_call \<Rightarrow> 'r action)
     \<Rightarrow> TestDataCreateRequest \<Rightarrow> 'r action" where
  "create validate services body =
     (case validate body of
        Some e \<Rightarrow> reject e
      | None \<Rightarrow>
          (case cr_model body of
             LISTINGITEMTEMPLATE \<Rightarrow>
               services (ListingItemTemplateService_create (cr_data body) (cr_timestampedHash body))
           | LISTINGITEM \<Rightarrow> services (ListingItemService_create (cr_data body))
           | ACTIONMESSAGE \<Rightarrow> services (ActionMessageService_create (cr_data body))
           | PROFILE \<Rightarrow> services (ProfileService_create (cr_data body))
           | ITEMCATEGORY \<Rightarrow> services (ItemCategoryService_create (cr_data body))
           | FAVORITEITEM \<Rightarrow> services (FavoriteItemService_create (cr_data body))
           | ITEMINFORMATION \<Rightarrow> services (ItemInformationService_create (cr_data body))
           | BID \<Rightarrow> services (BidService_create (cr_data body))
           | PAYMENTINFORMATION \<Rightarrow> services (PaymentInformationService_create (cr_data body))
           | ITEMIMAGE \<Rightarrow> services (ItemImageService_create (cr_data body))
           | _ \<Rightarrow> reject (new_MessageException (str ''Not implemented''))))"

text \<open>
  The generator \<open>generate\<close> delegates to, with \<open>body.amount\<close>, \<open>body.withRelated\<close>
  and the \<open>body.generateParams\<close> from which it constructs the parameter object.
\<close>

datatype generator_call =
    GenerateListingItemTemplates int js "js list"
  | GenerateActionMessages int js "js list"
  | GenerateListingItems int js "js list"
  | GenerateProfiles int js "js list"
  | GenerateBids int js "js list"
  | GenerateOrders int js "js list"
  | GenerateProposals int js "js list"

definition generate ::
  "(TestDataGenerateRequest \<Rightarrow> exception option) \<Rightarrow> (generator_call \<Rightarrow> 'r action)
     \<Rightarrow> TestDataGenerateRequest \<Rightarrow> 'r action" where
  "generate validate generators body =
     (case validate body of
        Some e \<Rightarrow> reject e
      | None \<Rightarrow>
          (case gr_model body of
             LISTINGITEMTEMPLATE \<Rightarrow>
               generators (GenerateListingItemTemplates (gr_amount body) (gr_withRelated body)
                             (gr_generateParams body))
           | ACTIONMESSAGE \<Rightarrow>
               generators (GenerateActionMessages (gr_amount body) (gr_withRelated body)
                             (gr_generateParams body))
           | LISTINGITEM \<Rightarrow>
               generators (GenerateListingItems (gr_amount body) (gr_withRelated body)
                             (gr_generateParams body))
           | PROFILE \<Rightarrow>
               generators (GenerateProfiles (gr_amount body) (gr_withRelated body)
                             (gr_generateParams body))
           | BID \<Rightarrow>
               generators (GenerateBids (gr_amount body) (gr_withRelated body)
                             (gr_generateParams body))
           | ORDER \<Rightarrow>
               generators (GenerateOrders (gr_amount body) (gr_withRelated body)
                             (gr_generateParams body))
           | PROPOSAL \<Rightarrow>
               generators (GenerateProposals (gr_amount body) (gr_withRelated body)
                             (gr_generateParams body))
           | _ \<Rightarrow> reject (new_MessageException (str ''Not implemented''))))"

subsection \<open>Generated data\<close>

text \<open>One round of the loop of \<open>generateAddressesData\<close>: nine values from Faker.\<close>

definition generateAddressData :: "env \<Rightarrow> js action" where
  "generateAddressData env =
     await (Faker_string env) (\<lambda>firstName.
     await (Faker_string env) (\<lambda>lastName.
     await (Faker_string env) (\<lambda>title.
     await (Faker_string env) (\<lambda>addressLine1.
     await (Faker_string env) (\<lambda>addressLine2.
     await (Faker_string env) (\<lambda>zipCode.
     await (Faker_string env) (\<lambda>city.
     await (Faker_string env) (\<lambda>state.
     await (Faker_string env) (\<lambda>country.
       resolve (JObj [(str ''firstName'', JStr firstName),
                      (str ''lastName'', JStr lastName),
                      (str ''title'', JStr title),
                      (str ''addressLine1'', JStr addressLine1),
                      (str ''addressLine2'', JStr addressLine2),
                      (str ''zipCode'', JStr zipCode),
                      (str ''city'', JStr city),
                      (str ''state'', JStr state),
                      (str ''country'', JStr country),
                      (str ''type'', JStr (str ''SHIPPING_OWN''))]))))))))))"

definition generateAddressesData :: "env \<Rightarrow> int \<Rightarrow> js list action" where
  "generateAddressesData env amount = for_loop (nat amount) (generateAddressData env) []"

text \<open>\<open>object.k = v\<close> on an object.\<close>

fun set_member :: "js \<Rightarrow> js_string \<Rightarrow> js \<Rightarrow> js" where
  "set_member (JObj kvs) k v =
     JObj (if k \<in> fst ` set kvs then map (\<lambda>(k', v'). if k' = k then (k', v) else (k', v')) kvs
           else kvs @ [(k, v)])"
| "set_member x k v = x"

definition bidDatas :: "(bid_data_id \<times> js) list" where
  "bidDatas =
     [(DataId (str ''size''), JStr (str ''XL'')),
      (DataId (str ''color''), JStr (str ''pink'')),
      (BUYER_OUTPUTS, JStr (str (''[{\"txid\":\"d39a1f90b7fd204bbdbaa49847c0615202c5624bc73634cd83d831e4a226ee0b\"''
                                  @ '',\"vout\":1,\"amount\":1.52497491}]''))),
      (BUYER_PUBKEY, JStr (str ''021e3ccb8a295d6aca9cf2836587f24b1c2ce14b217fe85b1672ee133e2a5d6d90'')),
      (BUYER_CHANGE_ADDRESS, JStr (str ''pbofM9onECpn76EosG1GLpyTcQCrfcLhb4'')),
      (BUYER_CHANGE_AMOUNT, JNum (9652477491 / 100000000)),
      (BUYER_RELEASE_ADDRESS, JStr (str ''pbofM9onECpn76EosG1GLpyTcQCrfcLhb5'')),
      (SELLER_PUBKEY, JStr (str ''021e3ccb8a295d6aca9cf2836587f24b1c2ce14b217fe85b1672ee133e2a5d6d91'')),
      (SELLER_OUTPUTS, JStr (str (''[{\"txid\":\"d39a1f90b7fd204bbdbaa49847c0615202c5624bc73634cd83d831e4a226ee0a\"''
                                   @ '',\"vout\":1,\"amount\":1.52497491}]''))),
      (SHIPPING_ADDRESS_FIRST_NAME, JStr (str ''asdf'')),
      (SHIPPING_ADDRESS_LAST_NAME, JStr (str ''asdf'')),
      (SHIPPING_ADDRESS_ADDRESS_LINE1, JStr (str ''asdf'')),
      (SHIPPING_ADDRESS_ADDRESS_LINE2, JStr (str ''asdf'')),
      (SHIPPING_ADDRESS_CITY, JStr (str ''asdf'')),
      (SHIPPING_ADDRESS_STATE, JStr (str '''')),
      (SHIPPING_ADDRESS_ZIP_CODE, JStr (str ''1234'')),
      (SHIPPING_ADDRESS_COUNTRY, JStr (str ''FI''))]"

subsection \<open>Listing item templates and listing items\<close>

text \<open>
  \<open>generateResponse(items, withRelated)\<close>: the items, or their ids.
\<close>

datatype 'a generate_response = Items "'a list" | ItemIds "int list"

definition generateResponse :: "('a \<Rightarrow> int) \<Rightarrow> 'a list \<Rightarrow> bool \<Rightarrow> 'a generate_response action" where
  "generateResponse id_of items withRelated =
     (if withRelated then resolve (Items items) else resolve (ItemIds (map id_of items)))"

text \<open>
  \<open>generateItemInformationData\<close>, \<open>generateMessagingInformationData\<close> and
  \<open>generateListingItemObjectsData\<close> fill an object with values from Faker and
  \<open>_.random\<close> and act on nothing: each is one reading of generated data.
\<close>

definition generateItemInformationData :: "env \<Rightarrow> js action" where
  "generateItemInformationData env = await reading (\<lambda>n. resolve (generated env n))"

definition generateMessagingInformationData :: "env \<Rightarrow> js action" where
  "generateMessagingInformationData env = await reading (\<lambda>n. resolve (generated env n))"

definition generateListingItemObjectsData :: "env \<Rightarrow> js action" where
  "generateListingItemObjectsData env = await reading (\<lambda>n. resolve (generated env n))"

text \<open>
  \<open>generatePaymentInformationData\<close>, for the flags \<open>generateEscrow\<close> and
  \<open>generateItemPrice\<close> of either kind of parameters.
\<close>

definition generatePaymentInformationData :: "env \<Rightarrow> bool \<Rightarrow> bool \<Rightarrow> js action" where
  "generatePaymentInformationData env generateEscrow generateItemPrice =
     await (if generateEscrow then
              await (lodash_random env 1 100) (\<lambda>buyer.
              await (lodash_random env 1 100) (\<lambda>seller.
                resolve (JObj [(str ''type'', JStr (str ''MAD'')),
                               (str ''ratio'', JObj [(str ''buyer'', JNum buyer),
                                                     (str ''seller'', JNum seller)])])))
            else resolve JUndefined) (\<lambda>escrow.
     await (if generateItemPrice then
              await (lodash_random env (1 / 10) 1) (\<lambda>basePrice.
              await (lodash_random env (1 / 100) (1 / 10)) (\<lambda>domestic.
              await (lodash_random env (1 / 10) (2 / 10)) (\<lambda>international.
              await (Faker_string env) (\<lambda>type.
              await (getNewAddress env [] True) (\<lambda>address.
                resolve (JObj [(str ''currency'', JStr (str ''PARTICL'')),
                               (str ''basePrice'', JNum basePrice),
                               (str ''shippingPrice'',
                                  JObj [(str ''domestic'', JNum domestic),
                                        (str ''international'', JNum international)]),
                               (str ''cryptocurrencyAddress'',
                                  JObj [(str ''type'', JStr type),
                                        (str ''address'', address)])]))))))
            else resolve JUndefined) (\<lambda>itemPrice.
       resolve (JObj [(str ''type'', JStr (str ''SALE'')),
                      (str ''escrow'', escrow),
                      (str ''itemPrice'', itemPrice)])))"

definition generateListingItemTemplateData ::
  "env \<Rightarrow> GenerateListingItemTemplateParams \<Rightarrow> ListingItemTemplateCreateRequest action" where
  "generateListingItemTemplateData env generateParams =
     await (if tp_generateItemInformation generateParams
            then generateItemInformationData env else resolve (JObj [])) (\<lambda>itemInformation.
     await (if tp_generatePaymentInformation generateParams
            then generatePaymentInformationData env (tp_generateEscrow generateParams)
                   (tp_generateItemPrice generateParams)
            else resolve (JObj [])) (\<lambda>paymentInformation.
     await (if tp_generateMessagingInformation generateParams
            then generateMessagingInformationData env else resolve (JArr [])) (\<lambda>messagingInformation.
     await (if tp_generateListingItemObjects generateParams
            then generateListingItemObjectsData env else resolve (JArr [])) (\<lambda>listingItemObjects.
     await (case tp_profileId generateParams of
              None \<Rightarrow> settle (profileService_getDefault env)
            | Some profileId \<Rightarrow> settle (profileService_findOne env profileId)) (\<lambda>profile.
       resolve \<lparr>tcr_itemInformation = itemInformation,
                tcr_paymentInformation = paymentInformation,
                tcr_messagingInformation = messagingInformation,
                tcr_listingItemObjects = listingItemObjects,
                tcr_profile_id = Profile_id profile\<rparr>)))))"

text \<open>One round of the loop of \<open>generateListingItemTemplates\<close>.\<close>

definition generateListingItemTemplate ::
  "env \<Rightarrow> GenerateListingItemTemplateParams \<Rightarrow> ListingItemTemplate action" where
  "generateListingItemTemplate env generateParams =
     await (generateListingItemTemplateData env generateParams) (\<lambda>listingItemTemplateCreateRequest.
     await (listingItemTemplateService_create env listingItemTemplateCreateRequest) (\<lambda>result.
       if tp_generateListingItem generateParams then
         await (case tp_marketId generateParams of
                  None \<Rightarrow> settle (marketService_getDefault env)
                | Some marketId \<Rightarrow> settle (marketService_findOne env marketId)) (\<lambda>market.
         await (new_Date_getTime env) (\<lambda>postedAt.
         await (new_Date_getTime env) (\<lambda>expiredAt.
         await (new_Date_getTime env) (\<lambda>receivedAt.
         let listingItemCreateRequest =
               \<lparr>lcr_seller = JStr (Profile_address (ListingItemTemplate_Profile result)),
                lcr_market_id = Market_id market,
                lcr_listing_item_template_id = Some (ListingItemTemplate_id result),
                lcr_itemInformation = tcr_itemInformation listingItemTemplateCreateRequest,
                lcr_paymentInformation = tcr_paymentInformation listingItemTemplateCreateRequest,
                lcr_messagingInformation = tcr_messagingInformation listingItemTemplateCreateRequest,
                lcr_listingItemObjects = tcr_listingItemObjects listingItemTemplateCreateRequest,
                lcr_expiryTime = 10,
                lcr_postedAt = postedAt,
                lcr_expiredAt = expiredAt + 60 * 1000 * 60 * 24 * 10,
                lcr_receivedAt = receivedAt\<rparr>
         in
         await (listingItemService_create env listingItemCreateRequest) (\<lambda>listingItem.
           listingItemTemplateService_findOne (ListingItemTemplate_id result))))))
       else resolve result))"

definition generateListingItemTemplates ::
  "env \<Rightarrow> int \<Rightarrow> bool \<Rightarrow> GenerateListingItemTemplateParams
     \<Rightarrow> ListingItemTemplate generate_response action" where
  "generateListingItemTemplates env amount withRelated generateParams =
     await (for_loop (nat amount) (generateListingItemTemplate env generateParams) []) (\<lambda>items.
       generateResponse ListingItemTemplate_id items withRelated)"

definition generateListingItemData ::
  "env \<Rightarrow> GenerateListingItemParams \<Rightarrow> ListingItemCreateRequest action" where
  "generateListingItemData env generateParams =
     await (settle (profileService_getDefault env)) (\<lambda>defaultProfile.
     await (settle (marketService_getDefault env)) (\<lambda>defaultMarket.
     await (if truthy_string (lp_seller generateParams)
            then resolve (JStr (the (lp_seller generateParams)))
            else getNewAddress env [] True) (\<lambda>seller.
     await (if lp_generateItemInformation generateParams
            then generateItemInformationData env else resolve (JObj [])) (\<lambda>itemInformation.
     await (if lp_generatePaymentInformation generateParams
            then generatePaymentInformationData env (lp_generateEscrow generateParams)
                   (lp_generateItemPrice generateParams)
            else resolve (JObj [])) (\<lambda>paymentInformation.
     await (if lp_generateMessagingInformation generateParams
            then generateMessagingInformationData env else resolve (JArr [])) (\<lambda>messagingInformation.
     await (if lp_generateListingItemObjects generateParams
            then generateListingItemObjectsData env else resolve (JArr [])) (\<lambda>listingItemObjects.
     await (new_Date_getTime env) (\<lambda>postedAt.
     await (new_Date_getTime env) (\<lambda>expiredAt.
     await (new_Date_getTime env) (\<lambda>receivedAt.
     let listingItemCreateRequest =
           \<lparr>lcr_seller = seller,
            lcr_market_id = Market_id defaultMarket,
            lcr_listing_item_template_id = None,
            lcr_itemInformation = itemInformation,
            lcr_paymentInformation = paymentInformation,
            lcr_messagingInformation = messagingInformation,
            lcr_listingItemObjects = listingItemObjects,
            lcr_expiryTime = 4,
            lcr_postedAt = postedAt,
            lcr_expiredAt = expiredAt + 100000000,
            lcr_receivedAt = receivedAt\<rparr>
     in
     if truthy_string (lp_listingItemTemplateHash generateParams) then
       await (listingItemTemplateService_findOneByHash (the (lp_listingItemTemplateHash generateParams)))
         (\<lambda>listingItemTemplateModel.
            case listingItemTemplateModel of
              None \<Rightarrow> resolve listingItemCreateRequest
            | Some listingItemTemplate \<Rightarrow>
                resolve (listingItemCreateRequest
                          \<lparr>lcr_listing_item_template_id :=
                             Some (ListingItemTemplate_id listingItemTemplate)\<rparr>))
     else resolve listingItemCreateRequest))))))))))"

text \<open>One round of the loop of \<open>generateListingItems\<close>.\<close>

definition generateListingItem :: "env \<Rightarrow> GenerateListingItemParams \<Rightarrow> ListingItem action" where
  "generateListingItem env generateParams =
     await (generateListingItemData env generateParams) (\<lambda>listingItemCreateRequest.
     await (settle (marketService_getDefault env)) (\<lambda>market.
       listingItemService_create env listingItemCreateRequest))"

definition generateListingItems ::
  "env \<Rightarrow> int \<Rightarrow> bool \<Rightarrow> GenerateListingItemParams \<Rightarrow> ListingItem generate_response action" where
  "generateListingItems env amount withRelated generateParams =
     await (for_loop (nat amount) (generateListingItem env generateParams) []) (\<lambda>items.
       generateResponse ListingItem_id items withRelated)"

subsection \<open>generateBidData\<close>

definition generateBidData :: "env \<Rightarrow> GenerateBidParams \<Rightarrow> BidCreateRequest action" where
  "generateBidData env generateParams =
     await (generateAddressesData env 1) (\<lambda>addresses.
     (case addresses of
        [] \<Rightarrow> reject (Error (str ''TypeError'')
                        (str ''Cannot set property '' @ quoted (str ''profile_id'')
                          @ str '' of undefined''))
      | address # rest \<Rightarrow>
     await (settle (profileService_getDefault env)) (\<lambda>defaultProfile.
     let address = set_member address (str ''profile_id'') (JNum (of_int (Profile_id defaultProfile)))
     in
     await (if truthy_string (bp_bidder generateParams)
            then resolve (JStr (the (bp_bidder generateParams)))
            else getNewAddress env [] True) (\<lambda>bidder.
     let action = (case bp_action generateParams of Some a \<Rightarrow> a | None \<Rightarrow> MPA_BID);
         bidCreateRequest =
           \<lparr>bcr_action = action, bcr_address = address, bcr_bidder = bidder,
            bcr_bidDatas = bidDatas, bcr_listing_item_id = None\<rparr>
     in
     if truthy_string (bp_listingItemHash generateParams) then
       await (listingItemService_findOneByHash (the (bp_listingItemHash generateParams)))
         (\<lambda>listingItemModel.
            case listingItemModel of
              None \<Rightarrow> resolve bidCreateRequest
            | Some listingItem \<Rightarrow>
                resolve (bidCreateRequest\<lparr>bcr_listing_item_id := Some (ListingItem_id listingItem)\<rparr>))
     else resolve bidCreateRequest))))"

subsection \<open>generateProposalData\<close>

definition generateProposalData :: "env \<Rightarrow> GenerateProposalParams \<Rightarrow> ProposalCreateRequest action" where
  "generateProposalData env generateParams =
     await (if \<not> truthy_string (pp_submitter generateParams)
            then await (settle (profileService_getDefault env))
                   (\<lambda>profile. resolve (Profile_address profile))
            else resolve (the (pp_submitter generateParams))) (\<lambda>submitter.
     let type = (if truthy_string (pp_listingItemHash generateParams) then ITEM_VOTE else PUBLIC_VOTE)
     in
     await (if truthy_string (pp_listingItemHash generateParams)
            then resolve (the (pp_listingItemHash generateParams))
            else Faker_string env) (\<lambda>title.
     let item = (if truthy_string (pp_listingItemHash generateParams)
                 then pp_listingItemHash generateParams else None)
     in
     await (if truthy_string (pp_listingItemHash generateParams)
            then resolve (str ''ILLEGAL ITEM'')
            else Faker_string env) (\<lambda>description.
     await (new_Date_getTime env) (\<lambda>currentTime.
     await (if pp_generatePastProposal generateParams
            then lodash_random env 1 (of_int currentTime / 2)
            else lodash_random env (of_int currentTime + 100) (of_int currentTime + 1000))
       (\<lambda>timeStart.
     await (if pp_generatePastProposal generateParams
            then lodash_random env (of_int currentTime / 2 + 100) (of_int currentTime - 1000)
            else lodash_random env (of_int currentTime + 1001) (of_int currentTime + 2000))
       (\<lambda>timeEnd.
     let proposalCreateRequest =
           \<lparr>pcr_submitter = submitter, pcr_type = type, pcr_item = item, pcr_title = title,
            pcr_description = description, pcr_timeStart = timeStart, pcr_postedAt = timeStart,
            pcr_receivedAt = timeStart, pcr_expiredAt = timeEnd, pcr_hash = None,
            pcr_options = []\<rparr>;
         hash = ObjectHash_getHash env (PROPOSAL_CREATEREQUEST proposalCreateRequest);
         options =
           [\<lparr>po_proposalHash = hash, po_optionId = 0, po_description = str ''KEEP''\<rparr>,
            \<lparr>po_proposalHash = hash, po_optionId = 1, po_description = str ''REMOVE''\<rparr>]
     in resolve (proposalCreateRequest\<lparr>pcr_hash := Some hash, pcr_options := options\<rparr>)))))))"


subsection \<open>Bids and orders\<close>

text \<open>
  \<open>xs[0]\<close> of a response that is then read as an object: reading a property of
  \<open>undefined\<close> throws.
\<close>

definition first_item :: "'a generate_response \<Rightarrow> 'a action" where
  "first_item r =
     (case r of
        Items (x # xs) \<Rightarrow> resolve x
      | _ \<Rightarrow> reject (Error (str ''TypeError'') (str ''Cannot read property '' @ quoted (str ''id'') @ str '' of undefined'')))"

text \<open>One round of the loop of \<open>generateBids\<close>.\<close>

definition generateBid :: "env \<Rightarrow> GenerateBidParams \<Rightarrow> Bid action" where
  "generateBid env generateParams =
     await (generateBidData env generateParams) (\<lambda>bid. bidService_create bid)"

text \<open>
  \<open>generateBids\<close>. It sets \<open>generateParams.listingItemHash\<close> when it generates a
  listing item; the loop runs with the parameters so changed.
\<close>

definition generateBids :: "env \<Rightarrow> int \<Rightarrow> bool \<Rightarrow> GenerateBidParams \<Rightarrow> Bid generate_response action" where
  "generateBids env amount withRelated generateParams =
     (let listingItemTemplateGenerateParams = new_GenerateListingItemTemplateParams env;
          listingItemGenerateParams = new_GenerateListingItemParams env
      in
      await (if bp_generateListingItemTemplate generateParams then
               await (generateListingItemTemplates env 1 True listingItemTemplateGenerateParams)
                 (\<lambda>listingItemTemplates.
               await (first_item listingItemTemplates) (\<lambda>listingItemTemplate.
                 resolve (listingItemGenerateParams
                            \<lparr>lp_listingItemTemplateHash :=
                               Some (ListingItemTemplate_hash listingItemTemplate)\<rparr>)))
             else resolve listingItemGenerateParams) (\<lambda>listingItemGenerateParams.
      await (if bp_generateListingItem generateParams then
               (let listingItemGenerateParams =
                      listingItemGenerateParams
                        \<lparr>lp_seller := (if truthy_string (bp_listingItemSeller generateParams)
                                       then bp_listingItemSeller generateParams else None)\<rparr>
                in
                await (generateListingItems env 1 True listingItemGenerateParams) (\<lambda>listingItems.
                await (first_item listingItems) (\<lambda>listingItem.
                  resolve (generateParams\<lparr>bp_listingItemHash := Some (ListingItem_hash listingItem)\<rparr>))))
             else resolve generateParams) (\<lambda>generateParams.
      await (for_loop (nat amount) (generateBid env generateParams) []) (\<lambda>items.
        generateResponse Bid_id items withRelated))))"

definition generateOrderData :: "env \<Rightarrow> GenerateOrderParams \<Rightarrow> OrderCreateRequest action" where
  "generateOrderData env generateParams =
     await (bidService_findOne (op_bidId generateParams)) (\<lambda>bid.
     await (settle (orderFactory_getModelFromBid env bid)) (\<lambda>orderCreateRequest.
       if \<not> op_generateOrderItem generateParams
       then resolve (orderCreateRequest\<lparr>ocr_orderItems := []\<rparr>)
       else resolve orderCreateRequest))"

text \<open>One round of the loop of \<open>generateOrders\<close>.\<close>

definition generateOrder :: "env \<Rightarrow> GenerateOrderParams \<Rightarrow> Order action" where
  "generateOrder env generateParams =
     await (generateOrderData env generateParams) (\<lambda>orderCreateRequest.
       orderService_create orderCreateRequest)"

text \<open>
  \<open>generateOrders\<close>. It sets \<open>generateParams.bidId\<close>; the result carries the
  parameters as the call leaves them.
\<close>

definition generateOrders ::
  "env \<Rightarrow> int \<Rightarrow> bool \<Rightarrow> GenerateOrderParams \<Rightarrow> (Order generate_response \<times> GenerateOrderParams) action" where
  "generateOrders env amount withRelated generateParams =
     await (if op_generateBid generateParams then
              (let bidGenerateParams =
                     (new_GenerateBidParams env)
                       \<lparr>bp_generateListingItemTemplate := op_generateListingItemTemplate generateParams,
                        bp_generateListingItem := op_generateListingItem generateParams,
                        bp_action := Some MPA_ACCEPT,
                        bp_listingItemSeller := op_listingItemSeller generateParams\<rparr>
               in
               await (generateBids env 1 True bidGenerateParams) (\<lambda>bids. first_item bids))
            else bidService_findOne (op_bidId generateParams)) (\<lambda>bid.
     let generateParams = generateParams\<lparr>op_bidId := Some (Bid_id bid)\<rparr>
     in
     await (for_loop (nat amount) (generateOrder env generateParams) []) (\<lambda>items.
     await (generateResponse Order_id items withRelated) (\<lambda>response.
       resolve (response, generateParams))))"

section \<open>BidActionService\<close>

record BidMessage =
  bm_action :: BidMessageType
  bm_item :: js_string
  bm_objects :: "(bid_data_id \<times> js) list"

record MarketplaceMessage =
  mm_version :: js_string
  mm_mpaction :: BidMessage
  mm_market :: js_string

record SmsgMessage =
  smsg_msgid :: js
  smsg_from :: js_string
  smsg_to :: js_string
  smsg_text :: js_string

record MarketplaceEvent =
  ev_smsgMessage :: SmsgMessage
  ev_marketplaceMessage :: MarketplaceMessage

text \<open>
  Modelled from the spec: \<open>BidActionService.processBidReceivedEvent\<close> is not among the
  sources; only a test that calls it is. The spec has an action service consume an
  inbound marketplace event (the message and its parsed payload), resolve it against
  existing entities by hash, validate it, and drive the domain services to record the
  transition, here the creation of a bid. The validation is the parameter \<open>valid\<close>.
  The bidder is the sender of the message, the bid data are the objects of the bid
  message.
\<close>

definition processBidReceivedEvent :: "(MarketplaceEvent \<Rightarrow> bool) \<Rightarrow> MarketplaceEvent \<Rightarrow> Bid action" where
  "processBidReceivedEvent valid event =
     (let bidMessage = mm_mpaction (ev_marketplaceMessage event);
          bidder = smsg_from (ev_smsgMessage event)
      in
      await (listingItemService_findOneByHash (bm_item bidMessage)) (\<lambda>listingItemModel.
        case listingItemModel of
          None \<Rightarrow> reject NotFoundException
        | Some listingItem \<Rightarrow>
            if \<not> valid event
            then reject (Error (str ''ValidationException'') (str ''Message body is not valid''))
            else bidService_create
                   \<lparr>bcr_action = bm_action bidMessage,
                    bcr_address = JUndefined,
                    bcr_bidder = JStr bidder,
                    bcr_bidDatas = bm_objects bidMessage,
                    bcr_listing_item_id = Some (ListingItem_id listingItem)\<rparr>))"


section \<open>An example world\<close>

text \<open>
  A small environment and an empty world, on which the generators can be run: a clock
  that reads 2200, a random source that gives the upper bound, and a toy object hash
  over a toy serialisation, which reads the title and the description of a proposal
  and, of a listing item or a template, the item information, the payment
  information, the messaging information and the listing item objects.
\<close>

primrec example_serialize :: "js \<Rightarrow> js_string" where
  "example_serialize JUndefined = str ''undefined''"
| "example_serialize JNull = str ''null''"
| "example_serialize (JBool b) = (if b then str ''true'' else str ''false'')"
| "example_serialize (JNum x) = str ''#''"
| "example_serialize (JStr s) = s"
| "example_serialize (JArr xs) = concat (map example_serialize xs)"
| "example_serialize (JObj kvs) =
     concat (map (\<lambda>kv. fst kv @ snd kv) (map (map_prod (\<lambda>k. k) example_serialize) kvs))"

definition example_getHash :: "hashable \<Rightarrow> js_string" where
  "example_getHash object =
     str ''sha256:'' @
       (case object of
          LISTINGITEM_CREATEREQUEST r \<Rightarrow>
            concat (map example_serialize
              [lcr_itemInformation r, lcr_paymentInformation r,
               lcr_messagingInformation r, lcr_listingItemObjects r])
        | LISTINGITEMTEMPLATE_CREATEREQUEST r \<Rightarrow>
            concat (map example_serialize
              [tcr_itemInformation r, tcr_paymentInformation r,
               tcr_messagingInformation r, tcr_listingItemObjects r])
        | PROPOSAL_CREATEREQUEST r \<Rightarrow> pcr_title r @ pcr_description r)"

definition example_profile :: Profile where
  "example_profile = \<lparr>Profile_id = 1, Profile_address = str ''pDefaultProfile''\<rparr>"

definition example_market :: Market where
  "example_market = \<lparr>Market_id = 1, Market_address = str ''pDefaultMarket''\<rparr>"

definition example_env :: env where
  "example_env =
     \<lparr>rpc = example_daemon,
      Date_getTime = (\<lambda>n. 2200),
      Faker = (\<lambda>n. str ''lorem''),
      generated = (\<lambda>n. JObj [(str ''title'', JStr (str ''Chair''))]),
      random_source = (\<lambda>n lower upper. max lower upper),
      profileService_getDefault = Inr example_profile,
      profileService_findOne =
        (\<lambda>i. if i = 1 then Inr example_profile else Inl NotFoundException),
      marketService_getDefault = Inr example_market,
      marketService_findOne =
        (\<lambda>i. if i = 1 then Inr example_market else Inl NotFoundException),
      orderFactory_getModelFromBid =
        (\<lambda>bid. Inr \<lparr>ocr_orderItems = [JObj [(str ''bid_id'', JNum (of_int (Bid_id bid)))]],
                       ocr_fields = JObj [(str ''buyer'', Bid_bidder bid)]\<rparr>),
      ObjectHash_getHash = example_getHash,
      new_GenerateBidParams =
        \<lparr>bp_generateListingItemTemplate = True, bp_generateListingItem = True,
         bp_listingItemHash = None, bp_action = None, bp_bidder = None,
         bp_listingItemSeller = None\<rparr>,
      new_GenerateListingItemTemplateParams =
        \<lparr>tp_generateItemInformation = True, tp_generatePaymentInformation = True,
         tp_generateMessagingInformation = True, tp_generateListingItemObjects = True,
         tp_generateEscrow = True, tp_generateItemPrice = True, tp_profileId = None,
         tp_generateListingItem = False, tp_marketId = None\<rparr>,
      new_GenerateListingItemParams =
        \<lparr>lp_generateItemInformation = True, lp_generatePaymentInformation = True,
         lp_generateMessagingInformation = True, lp_generateListingItemObjects = True,
         lp_generateEscrow = True, lp_generateItemPrice = True,
         lp_listingItemTemplateHash = None, lp_seller = None\<rparr>\<rparr>"

definition example_world :: world where
  "example_world =
     \<lparr>RPC_REQUEST_ID = 1, readings = 0, listing_item_templates = [], listing_items = [],
      bids = [], orders = []\<rparr>"

text \<open>A listing item and a bid, the worlds that hold them, and an event that bids on the item.\<close>

definition example_listing_item :: ListingItem where
  "example_listing_item =
     \<lparr>ListingItem_id = 7, ListingItem_hash = str ''f08f3d6e'',
      ListingItem_data =
        \<lparr>lcr_seller = JStr (str ''pSeller''), lcr_market_id = 1,
         lcr_listing_item_template_id = None,
         lcr_itemInformation = JObj [], lcr_paymentInformation = JObj [],
         lcr_messagingInformation = JArr [], lcr_listingItemObjects = JArr [],
         lcr_expiryTime = 4, lcr_postedAt = 2200, lcr_expiredAt = 100002200,
         lcr_receivedAt = 2200\<rparr>\<rparr>"

definition example_world_with_listing :: world where
  "example_world_with_listing = example_world\<lparr>listing_items := [example_listing_item]\<rparr>"

definition example_bid :: Bid where
  "example_bid =
     \<lparr>Bid_id = 3, Bid_action = MPA_ACCEPT, Bid_bidder = JStr (str ''pBidder''),
      Bid_listing_item_id = Some 7, Bid_ShippingAddress = JObj [], Bid_BidDatas = []\<rparr>"

definition example_world_with_bid :: world where
  "example_world_with_bid = example_world\<lparr>bids := [example_bid]\<rparr>"

definition example_event :: MarketplaceEvent where
  "example_event =
     \<lparr>ev_smsgMessage =
        \<lparr>smsg_msgid = JNum 1, smsg_from = str ''pgS7muLvK1DXsFMD56UySmqTryvnpnKvh6'',
         smsg_to = str ''pmktyVZshdMAQ6DPbbRXEFNGuzMbTMkqAA'', smsg_text = str ''''\<rparr>,
      ev_marketplaceMessage =
        \<lparr>mm_version = str ''0300'',
         mm_mpaction =
           \<lparr>bm_action = MPA_BID, bm_item = str ''f08f3d6e'',
            bm_objects = [(DataId (str ''size''), JStr (str ''XL'')),
                          (DataId (str ''color''), JStr (str ''pink''))]\<rparr>,
         mm_market = str ''pDefaultMarket''\<rparr>\<rparr>"

text \<open>Parameters and a request for the generators.\<close>

definition example_bid_params :: GenerateBidParams where
  "example_bid_params =
     \<lparr>bp_generateListingItemTemplate = False, bp_generateListingItem = False,
      bp_listingItemHash = Some (str ''f08f3d6e''), bp_action = None, bp_bidder = None,
      bp_listingItemSeller = None\<rparr>"


definition example_order_params :: GenerateOrderParams where
  "example_order_params =
     \<lparr>op_generateListingItemTemplate = False, op_generateListingItem = False,
      op_generateBid = True, op_generateOrderItem = True, op_bidId = None,
      op_listingItemSeller = None\<rparr>"

section \<open>Notions for the proofs\<close>

text \<open>An action preserves a view of the world when no run of it changes the view.\<close>

definition preserves :: "(world \<Rightarrow> 'b) \<Rightarrow> 'a action \<Rightarrow> bool" where
  "preserves f m \<longleftrightarrow> (\<forall>w r w'. m w = (r, w') \<longrightarrow> f w' = f w)"

text \<open>The views: the four tables, and the tables of bids and orders.\<close>

definition tables :: "world \<Rightarrow> ListingItemTemplate list \<times> ListingItem list \<times> Bid list \<times> Order list" where
  "tables w = (listing_item_templates w, listing_items w, bids w, orders w)"

definition bids_orders :: "world \<Rightarrow> Bid list \<times> Order list" where
  "bids_orders w = (bids w, orders w)"






section \<open>Properties of CoreRpcService\<close>

text \<open>What is thrown before the post leaves \<open>call\<close> as it is.\<close>

lemma call_thrown_before_post:
  "post \<lparr>rpc_method = m, rpc_params = ps, rpc_id = rid\<rparr> = Inl e \<Longrightarrow>
   call post rid m ps = (Inl e, rid + 1)"
  by (simp add: call_def)

text \<open>
  What \<open>call\<close> does with an answer whose status is not 200: the parsed body, or the
  status message when the body is empty, goes into an \<open>HttpException\<close>, unless the
  body is not empty and does not parse; then the \<open>SyntaxError\<close> of \<open>JSON.parse\<close>
  is thrown inside the callback before the \<open>HttpException\<close> is constructed, and the
  handler of \<open>.catch\<close> wraps it.
\<close>

lemma call_not_200:
  assumes "post \<lparr>rpc_method = m, rpc_params = ps, rpc_id = rid\<rparr> = Inr (Inr resp)"
    and "statusCode resp \<noteq> 200"
  shows "fst (call post rid m ps) =
     (case content resp of
        Json_text v \<Rightarrow> Inl (HttpException (statusCode resp) v)
      | Not_json t msg \<Rightarrow>
          if t = [] then Inl (HttpException (statusCode resp) (JStr (statusMessage resp)))
          else Inl (InternalServerException [JStr (str ''SyntaxError''), JStr msg]))"
  using assms by (simp add: call_def call_then_def split: content.splits)

text \<open>
  Claim C6. The claim has \<open>call\<close> throw an \<open>HttpException\<close> whenever the status
  is not 200. For a daemon that answers 503 with the plain-text body
  \<open>Work queue depth exceeded\<close> the code throws an \<open>InternalServerException\<close>
  that wraps the \<open>SyntaxError\<close> of \<open>JSON.parse\<close>, although the next statement
  of the callback is \<open>throw new HttpException(response.statusCode, message)\<close>. For
  the answers 401 with an empty body and 404 with a JSON body the same callback does
  throw the \<open>HttpException\<close> with the status.
\<close>

theorem call_non_json_error_body:
  "call busy_daemon 1 (str ''getblockcount'') []
     = (Inl (InternalServerException
               [JStr (str ''SyntaxError''),
                JStr (str ''Unexpected token W in JSON at position 0'')]), 2)
   \<and> call unauthorized_daemon 1 (str ''getblockcount'') []
     = (Inl (HttpException 401 (JStr (str ''Unauthorized''))), 2)
   \<and> call strict_daemon 1 (str ''getblockcount'') []
     = (Inl (HttpException 404 method_not_found), 2)"
  by (simp add: call_def call_then_def busy_daemon_def unauthorized_daemon_def
      strict_daemon_def str_def)

lemma example_daemon_sign:
  "call example_daemon i (str ''signmessage'') [JStr a, JStr s] = (Inr (JStr (a @ s)), i + 1)"
  by (simp add: call_def call_then_def example_daemon_def ok_response_def str_def)

lemma example_daemon_verify:
  "call example_daemon i (str ''verifymessage'') [JStr a, JStr sig, JStr s] = (Inr (JBool (sig = a @ s)), i + 1)"
  by (simp add: call_def call_then_def example_daemon_def ok_response_def str_def)

lemma example_daemon_accepts: "daemon_accepts_own_signatures example_daemon"
  by (simp add: daemon_accepts_own_signatures_def example_daemon_sign example_daemon_verify)

lemma sort_split_perm:
  assumes "mset s1 = mset s2"
  shows "Array_sort (String_split s1) = Array_sort (String_split s2)"
proof -
  have "mset (String_split s1) = mset (String_split s2)"
    by (metis String_split_def assms mset_map)
  moreover have "sorted (sort (String_split s2))" by simp
  ultimately show ?thesis
    unfolding Array_sort_def by (intro properties_for_sort) simp_all
qed

text \<open>
  Claim C7. For a message that has a serialisation, \<open>signMessage\<close> and
  \<open>verifyMessage\<close> hand the daemon the same signable string, the sorted code units of
  the serialisation joined by commas; so a daemon that accepts its own signatures makes
  \<open>verifyMessage\<close> return \<open>true\<close> for the signature \<open>signMessage\<close> returned for
  the same message and address.
\<close>

theorem signMessage_verifyMessage_same_signable:
  assumes "stringify message = Inr json"
  shows "\<exists>signable.
           signMessage stringify post i address message =
             call post i (str ''signmessage'') [JStr address, JStr signable]
         \<and> verifyMessage stringify post j address signature message =
             call post j (str ''verifymessage'') [JStr address, JStr signature, JStr signable]
         \<and> signable = Array_toString (Array_sort (String_split json))
         \<and> (daemon_accepts_own_signatures post
              \<and> fst (signMessage stringify post i address message) = Inr (JStr signature)
            \<longrightarrow> fst (verifyMessage stringify post j address signature message) = Inr (JBool True))"
  using assms
  by (auto simp: signMessage_def verifyMessage_def daemon_accepts_own_signatures_def)

theorem signMessage_verifyMessage_same_signable_witness:
  "example_stringify (JObj [(str ''a'', JStr (str ''b''))]) = Inr (str ''{\"a\":\"b\"}'')
   \<and> daemon_accepts_own_signatures example_daemon
   \<and> fst (signMessage example_stringify example_daemon 1 (str ''pXyz'') (JObj [(str ''a'', JStr (str ''b''))]))
       = Inr (JStr (str ''pXyz\",\",\",\",:,a,b,{,}''))
   \<and> fst (verifyMessage example_stringify example_daemon 2 (str ''pXyz'') (str ''pXyz\",\",\",\",:,a,b,{,}'')
        (JObj [(str ''a'', JStr (str ''b''))])) = Inr (JBool True)"
proof -
  have s: "example_stringify (JObj [(str ''a'', JStr (str ''b''))]) = Inr (str ''{\"a\":\"b\"}'')"
    by (simp add: example_stringify_def)
  have sg: "fst (signMessage example_stringify example_daemon 1 (str ''pXyz'') (JObj [(str ''a'', JStr (str ''b''))]))
       = Inr (JStr (str ''pXyz\",\",\",\",:,a,b,{,}''))"
    by (simp add: signMessage_def s example_daemon_sign Array_sort_def String_split_def) (simp add: str_def)
  from signMessage_verifyMessage_same_signable [where stringify = example_stringify
      and message = "JObj [(str ''a'', JStr (str ''b''))]" and json = "str ''{\"a\":\"b\"}''"
      and post = example_daemon and i = 1 and j = 2 and address = "str ''pXyz''"
      and signature = "str ''pXyz\",\",\",\",:,a,b,{,}''", OF s]
    example_daemon_accepts sg s
  show ?thesis by auto
qed

text \<open>
  Claim C9. Two messages whose serialisations are permutations of each other get the
  same \<open>signmessage\<close> call, hence the same signature, and the signature obtained for
  the first verifies for the second.
\<close>

theorem signMessage_permuted_messages:
  assumes "stringify m1 = Inr s1" and "stringify m2 = Inr s2" and "mset s1 = mset s2"
  shows "signMessage stringify post i address m1 = signMessage stringify post i address m2
       \<and> (daemon_accepts_own_signatures post
            \<and> fst (signMessage stringify post i address m1) = Inr (JStr signature)
          \<longrightarrow> fst (verifyMessage stringify post j address signature m2) = Inr (JBool True))"
  using assms sort_split_perm [OF assms(3)]
  by (auto simp: signMessage_def verifyMessage_def daemon_accepts_own_signatures_def)

theorem signMessage_permuted_messages_witness:
  "JObj [(str ''a'', JStr (str ''b''))] \<noteq> JObj [(str ''b'', JStr (str ''a''))]
   \<and> example_stringify (JObj [(str ''a'', JStr (str ''b''))]) = Inr (str ''{\"a\":\"b\"}'')
   \<and> example_stringify (JObj [(str ''b'', JStr (str ''a''))]) = Inr (str ''{\"b\":\"a\"}'')
   \<and> mset (str ''{\"a\":\"b\"}'') = mset (str ''{\"b\":\"a\"}'')
   \<and> daemon_accepts_own_signatures example_daemon
   \<and> fst (signMessage example_stringify example_daemon 1 (str ''pXyz'') (JObj [(str ''a'', JStr (str ''b''))]))
       = Inr (JStr (str ''pXyz\",\",\",\",:,a,b,{,}''))
   \<and> fst (verifyMessage example_stringify example_daemon 2 (str ''pXyz'') (str ''pXyz\",\",\",\",:,a,b,{,}'')
        (JObj [(str ''b'', JStr (str ''a''))])) = Inr (JBool True)"
proof -
  have s1: "example_stringify (JObj [(str ''a'', JStr (str ''b''))]) = Inr (str ''{\"a\":\"b\"}'')"
    by (simp add: example_stringify_def)
  have s2: "example_stringify (JObj [(str ''b'', JStr (str ''a''))]) = Inr (str ''{\"b\":\"a\"}'')"
    by (simp add: example_stringify_def str_def)
  have p: "mset (str ''{\"a\":\"b\"}'') = mset (str ''{\"b\":\"a\"}'')"
    by (simp add: str_def)
  have d: "JObj [(str ''a'', JStr (str ''b''))] \<noteq> JObj [(str ''b'', JStr (str ''a''))]"
    by (simp add: str_def)
  have sg: "fst (signMessage example_stringify example_daemon 1 (str ''pXyz'') (JObj [(str ''a'', JStr (str ''b''))]))
       = Inr (JStr (str ''pXyz\",\",\",\",:,a,b,{,}''))"
    by (simp add: signMessage_def s1 example_daemon_sign Array_sort_def String_split_def) (simp add: str_def)
  from signMessage_permuted_messages [where stringify = example_stringify
      and ?m1.0 = "JObj [(str ''a'', JStr (str ''b''))]" and ?s1.0 = "str ''{\"a\":\"b\"}''"
      and ?m2.0 = "JObj [(str ''b'', JStr (str ''a''))]" and ?s2.0 = "str ''{\"b\":\"a\"}''"
      and post = example_daemon and i = 1 and j = 2 and address = "str ''pXyz''"
      and signature = "str ''pXyz\",\",\",\",:,a,b,{,}''", OF s1 s2 p]
    example_daemon_accepts sg s1 s2 p d
  show ?thesis by auto
qed

section \<open>Properties of asynchronous actions\<close>

lemma await_Inr:
  "await m f w = (Inr r, w') \<longleftrightarrow> (\<exists>x w1. m w = (Inr x, w1) \<and> f x w1 = (Inr r, w'))"
  by (auto simp: await_def split: prod.splits sum.splits)

lemma await_Inl:
  "await m f w = (Inl e, w') \<longleftrightarrow>
     m w = (Inl e, w') \<or> (\<exists>x w1. m w = (Inr x, w1) \<and> f x w1 = (Inl e, w'))"
  by (auto simp: await_def split: prod.splits sum.splits)

lemma resolve_eq [simp]: "resolve x w = (r, w') \<longleftrightarrow> r = Inr x \<and> w' = w"
  by (auto simp: resolve_def)

lemma reject_eq [simp]: "reject e w = (r, w') \<longleftrightarrow> r = Inl e \<and> w' = w"
  by (auto simp: reject_def)

lemma settle_eq [simp]: "settle x w = (r, w') \<longleftrightarrow> r = x \<and> w' = w"
  by (auto simp: settle_def)

lemma str_neq_Nil [simp]: "str (c # cs) \<noteq> []"
  by (simp add: str_def)

lemmas action_defs = await_def resolve_def reject_def settle_def reading_def
  new_Date_getTime_def Faker_string_def lodash_random_def

lemmas example_defs = example_env_def example_world_def example_profile_def example_market_def
  example_daemon_def ok_response_def

lemmas run_defs = action_defs call_def call_then_def coreRpcService_call_def getNewAddress_def
  generateAddressesData_def generateAddressData_def

lemma preservesD: "preserves f m \<Longrightarrow> m w = (r, w') \<Longrightarrow> f w' = f w"
  by (auto simp: preserves_def)

lemma preserves_resolve [simp]: "preserves f (resolve x)"
  and preserves_reject [simp]: "preserves f (reject e)"
  and preserves_settle [simp]: "preserves f (settle r)"
  by (auto simp: preserves_def)

lemma preserves_await:
  assumes "preserves f m" and "\<And>x. preserves f (g x)"
  shows "preserves f (await m g)"
  using assms
  by (auto simp: preserves_def await_def split: prod.splits sum.splits)

lemma preserves_if:
  "preserves f m \<Longrightarrow> preserves f n \<Longrightarrow> preserves f (if b then m else n)"
  by simp

lemma preserves_for_loop:
  assumes "preserves f body"
  shows "preserves f (for_loop n body items)"
  using assms
  by (induction n arbitrary: items) (auto intro!: preserves_await)

lemma preserves_reading: "preserves tables reading"
  by (auto simp: preserves_def reading_def tables_def)

lemma preserves_Faker_string: "preserves tables (Faker_string env)"
  unfolding Faker_string_def by (intro preserves_await preserves_reading preserves_resolve)

lemma preserves_new_Date_getTime: "preserves tables (new_Date_getTime env)"
  unfolding new_Date_getTime_def by (intro preserves_await preserves_reading preserves_resolve)

lemma preserves_lodash_random: "preserves tables (lodash_random env l u)"
  unfolding lodash_random_def by (intro preserves_await preserves_reading preserves_resolve)

lemma preserves_coreRpcService_call: "preserves tables (coreRpcService_call env m ps)"
  by (auto simp: preserves_def coreRpcService_call_def tables_def split: prod.splits)

lemma preserves_getNewAddress: "preserves tables (getNewAddress env ps b)"
  unfolding getNewAddress_def
  by (intro preserves_await preserves_coreRpcService_call preserves_if preserves_resolve)

lemma preserves_generateAddressesData: "preserves tables (generateAddressesData env n)"
  unfolding generateAddressesData_def generateAddressData_def
  by (intro preserves_for_loop preserves_await preserves_Faker_string preserves_resolve)

lemma listing_items_tables: "tables w' = tables w \<Longrightarrow> listing_items w' = listing_items w"
  by (simp add: tables_def)

section \<open>Properties of TestDataService\<close>

subsection \<open>create and generate\<close>

text \<open>
  Claim C8. For a body that passes the validation of the decorator and whose \<open>model\<close>
  is none of those the switch supports, \<open>create\<close> (respectively \<open>generate\<close>) rejects
  with a \<open>MessageException\<close> of message \<open>Not implemented\<close> and code 404, whatever the
  services (generators) are, and leaves the world as it was: no service was called.
\<close>

theorem create_generate_not_implemented:
  "(cr_model createBody \<notin> {LISTINGITEMTEMPLATE, LISTINGITEM, ACTIONMESSAGE, PROFILE, ITEMCATEGORY,
        FAVORITEITEM, ITEMINFORMATION, BID, PAYMENTINFORMATION, ITEMIMAGE}
      \<and> validateCreate createBody = None
    \<longrightarrow> create validateCreate services createBody w
          = (Inl (MessageException 404 (str ''Not implemented'')), w))
   \<and> (gr_model generateBody \<notin> {LISTINGITEMTEMPLATE, ACTIONMESSAGE, LISTINGITEM, PROFILE, BID, ORDER, PROPOSAL}
      \<and> validateGenerate generateBody = None
    \<longrightarrow> generate validateGenerate generators generateBody w
          = (Inl (MessageException 404 (str ''Not implemented'')), w))"
  by (cases "cr_model createBody"; cases "gr_model generateBody")
     (simp_all add: create_def generate_def new_MessageException_def)

theorem create_generate_not_implemented_witness:
  "cr_model \<lparr>cr_model = ORDER, cr_data = JObj [], cr_timestampedHash = JUndefined\<rparr>
      \<notin> {LISTINGITEMTEMPLATE, LISTINGITEM, ACTIONMESSAGE, PROFILE, ITEMCATEGORY,
          FAVORITEITEM, ITEMINFORMATION, BID, PAYMENTINFORMATION, ITEMIMAGE}
   \<and> create (\<lambda>body. None) (\<lambda>c. resolve JNull)
        \<lparr>cr_model = ORDER, cr_data = JObj [], cr_timestampedHash = JUndefined\<rparr> example_world
      = (Inl (MessageException 404 (str ''Not implemented'')), example_world)
   \<and> gr_model \<lparr>gr_model = ITEMIMAGE, gr_amount = 1, gr_withRelated = JBool True, gr_generateParams = []\<rparr>
      \<notin> {LISTINGITEMTEMPLATE, ACTIONMESSAGE, LISTINGITEM, PROFILE, BID, ORDER, PROPOSAL}
   \<and> generate (\<lambda>body. None) (\<lambda>c. resolve JNull)
        \<lparr>gr_model = ITEMIMAGE, gr_amount = 1, gr_withRelated = JBool True, gr_generateParams = []\<rparr>
        example_world
      = (Inl (MessageException 404 (str ''Not implemented'')), example_world)"
  using create_generate_not_implemented
    [of "\<lparr>cr_model = ORDER, cr_data = JObj [], cr_timestampedHash = JUndefined\<rparr>"
        "\<lambda>body. None" "\<lambda>c. resolve JNull" example_world
        "\<lparr>gr_model = ITEMIMAGE, gr_amount = 1, gr_withRelated = JBool True, gr_generateParams = []\<rparr>"
        "\<lambda>body. None" "\<lambda>c. resolve JNull"]
  by simp

subsection \<open>generateBidData\<close>

text \<open>
  Claim C3. In the request \<open>generateBidData\<close> returns, \<open>listing_item_id\<close> is the id
  of the listing item found by \<open>generateParams.listingItemHash\<close> when that hash is set
  (a non-empty string, what the test of the code accepts) and a listing item has it;
  it is unset when the hash is unset.
\<close>

theorem generateBidData_listing_item_id:
  assumes run: "generateBidData env generateParams w = (Inr bidCreateRequest, w')"
  shows "(bp_listingItemHash generateParams = Some hash \<and> hash \<noteq> []
            \<and> fst (listingItemService_findOneByHash hash w) = Inr (Some listingItem)
          \<longrightarrow> bcr_listing_item_id bidCreateRequest = Some (ListingItem_id listingItem))
       \<and> (\<not> truthy_string (bp_listingItemHash generateParams)
          \<longrightarrow> bcr_listing_item_id bidCreateRequest = None)"
proof -
  define relate where "relate = (\<lambda>request :: BidCreateRequest.
     if truthy_string (bp_listingItemHash generateParams) then
       await (listingItemService_findOneByHash (the (bp_listingItemHash generateParams)))
         (\<lambda>listingItemModel.
            case listingItemModel of
              None \<Rightarrow> resolve request
            | Some listingItem \<Rightarrow>
                resolve (request\<lparr>bcr_listing_item_id := Some (ListingItem_id listingItem)\<rparr>))
     else resolve request)"
  have shape: "generateBidData env generateParams =
     await (generateAddressesData env 1) (\<lambda>addresses.
     (case addresses of
        [] \<Rightarrow> reject (Error (str ''TypeError'')
                        (str ''Cannot set property '' @ quoted (str ''profile_id'')
                          @ str '' of undefined''))
      | address # rest \<Rightarrow>
     await (settle (profileService_getDefault env)) (\<lambda>defaultProfile.
     await (if truthy_string (bp_bidder generateParams)
            then resolve (JStr (the (bp_bidder generateParams)))
            else getNewAddress env [] True) (\<lambda>bidder.
       relate \<lparr>bcr_action = (case bp_action generateParams of Some a \<Rightarrow> a | None \<Rightarrow> MPA_BID),
            bcr_address = set_member address (str ''profile_id'') (JNum (of_int (Profile_id defaultProfile))),
            bcr_bidder = bidder, bcr_bidDatas = bidDatas, bcr_listing_item_id = None\<rparr>))))"
    unfolding generateBidData_def relate_def Let_def ..
  from run obtain addresses w1 where
    a: "generateAddressesData env 1 w = (Inr addresses, w1)"
    and r1: "(case addresses of
        [] \<Rightarrow> reject (Error (str ''TypeError'')
                        (str ''Cannot set property '' @ quoted (str ''profile_id'')
                          @ str '' of undefined''))
      | address # rest \<Rightarrow>
     await (settle (profileService_getDefault env)) (\<lambda>defaultProfile.
     await (if truthy_string (bp_bidder generateParams)
            then resolve (JStr (the (bp_bidder generateParams)))
            else getNewAddress env [] True) (\<lambda>bidder.
       relate \<lparr>bcr_action = (case bp_action generateParams of Some a \<Rightarrow> a | None \<Rightarrow> MPA_BID),
            bcr_address = set_member address (str ''profile_id'') (JNum (of_int (Profile_id defaultProfile))),
            bcr_bidder = bidder, bcr_bidDatas = bidDatas, bcr_listing_item_id = None\<rparr>))) w1
       = (Inr bidCreateRequest, w')"
    unfolding shape await_Inr by blast
  from r1 obtain address rest where ad: "addresses = address # rest"
    by (cases addresses) auto
  from r1 ad obtain defaultProfile w1' where
    p: "settle (profileService_getDefault env) w1 = (Inr defaultProfile, w1')"
    and r1': "await (if truthy_string (bp_bidder generateParams)
            then resolve (JStr (the (bp_bidder generateParams)))
            else getNewAddress env [] True) (\<lambda>bidder.
       relate \<lparr>bcr_action = (case bp_action generateParams of Some a \<Rightarrow> a | None \<Rightarrow> MPA_BID),
            bcr_address = set_member address (str ''profile_id'') (JNum (of_int (Profile_id defaultProfile))),
            bcr_bidder = bidder, bcr_bidDatas = bidDatas, bcr_listing_item_id = None\<rparr>) w1'
          = (Inr bidCreateRequest, w')"
    by (simp add: await_Inr [where m = "settle (profileService_getDefault env)"]) blast
  from p have w1': "w1' = w1" by simp
  from r1' obtain bidder w2 where
    b: "(if truthy_string (bp_bidder generateParams)
            then resolve (JStr (the (bp_bidder generateParams)))
            else getNewAddress env [] True) w1' = (Inr bidder, w2)"
    and r2: "relate \<lparr>bcr_action = (case bp_action generateParams of Some a \<Rightarrow> a | None \<Rightarrow> MPA_BID),
            bcr_address = set_member address (str ''profile_id'') (JNum (of_int (Profile_id defaultProfile))),
            bcr_bidder = bidder, bcr_bidDatas = bidDatas, bcr_listing_item_id = None\<rparr> w2
          = (Inr bidCreateRequest, w')"
    unfolding await_Inr by blast
  have "tables w1 = tables w"
    using preservesD [OF preserves_generateAddressesData a] .
  moreover have "tables w2 = tables w1"
    using b w1' preservesD [OF preserves_getNewAddress] by (auto split: if_splits)
  ultimately have li: "listing_items w2 = listing_items w"
    by (simp add: tables_def)
  show ?thesis
    using r2 li
    by (auto simp: relate_def await_Inr listingItemService_findOneByHash_def split: if_splits option.splits)
qed

theorem generateBidData_listing_item_id_witness:
  "bp_listingItemHash example_bid_params = Some (str ''f08f3d6e'') \<and> str ''f08f3d6e'' \<noteq> []
   \<and> fst (listingItemService_findOneByHash (str ''f08f3d6e'') example_world_with_listing)
        = Inr (Some example_listing_item)
   \<and> (\<exists>r w'. generateBidData example_env example_bid_params example_world_with_listing = (Inr r, w')
          \<and> bcr_listing_item_id r = Some 7)
   \<and> \<not> truthy_string (bp_listingItemHash (example_bid_params\<lparr>bp_listingItemHash := None\<rparr>))
   \<and> (\<exists>r w'. generateBidData example_env (example_bid_params\<lparr>bp_listingItemHash := None\<rparr>)
               example_world_with_listing = (Inr r, w')
          \<and> bcr_listing_item_id r = None)"
proof -
  have h: "bp_listingItemHash example_bid_params = Some (str ''f08f3d6e'')"
    by (simp add: example_bid_params_def)
  have f: "fst (listingItemService_findOneByHash (str ''f08f3d6e'') example_world_with_listing)
        = Inr (Some example_listing_item)"
    by (simp add: listingItemService_findOneByHash_def example_world_with_listing_def
        example_listing_item_def)
  have i: "ListingItem_id example_listing_item = 7"
    by (simp add: example_listing_item_def)
  obtain r w' where run:
    "generateBidData example_env example_bid_params example_world_with_listing = (Inr r, w')"
    by (simp add: generateBidData_def run_defs example_defs example_bid_params_def
        example_world_with_listing_def listingItemService_findOneByHash_def example_listing_item_def
        Let_def str_def)
  obtain r0 w0 where run0:
    "generateBidData example_env (example_bid_params\<lparr>bp_listingItemHash := None\<rparr>)
       example_world_with_listing = (Inr r0, w0)"
    by (simp add: generateBidData_def run_defs example_defs example_bid_params_def
        example_world_with_listing_def Let_def str_def)
  from generateBidData_listing_item_id [OF run, of "str ''f08f3d6e''" example_listing_item] h f i
  have 1: "bcr_listing_item_id r = Some 7" by simp
  from generateBidData_listing_item_id [OF run0, of "[]" example_listing_item]
  have 2: "bcr_listing_item_id r0 = None" by simp
  from h f run run0 1 2 show ?thesis by auto
qed

subsection \<open>generateProposalData\<close>

lemma lodash_random_bounds:
  assumes "random_within_bounds env" and "lodash_random env lower upper w = (Inr x, w')"
  shows "min lower upper \<le> x \<and> x \<le> max lower upper"
  using assms
  by (auto simp: lodash_random_def random_within_bounds_def await_Inr reading_def)

lemma new_Date_getTime_value:
  assumes "new_Date_getTime env w = (Inr t, w')"
  shows "\<exists>n. t = Date_getTime env n"
  using assms by (auto simp: new_Date_getTime_def await_Inr reading_def)

text \<open>
  Claim C10. When \<open>_.random\<close> stays within its bounds and the clock reads at least
  2200, every request \<open>generateProposalData\<close> produces has \<open>timeStart\<close> strictly
  below \<open>expiredAt\<close>, for a past proposal as for a future one.
\<close>

theorem generateProposalData_timeStart_before_expiredAt:
  assumes bounds: "random_within_bounds env"
    and clock: "\<forall>n. 2200 \<le> Date_getTime env n"
    and run: "generateProposalData env generateParams w = (Inr proposalCreateRequest, w')"
  shows "pcr_timeStart proposalCreateRequest < pcr_expiredAt proposalCreateRequest"
proof -
  from run obtain currentTime timeStart timeEnd w1 w2 w3 w4 where
    t: "new_Date_getTime env w1 = (Inr currentTime, w2)"
    and s: "(if pp_generatePastProposal generateParams
            then lodash_random env 1 (of_int currentTime / 2)
            else lodash_random env (of_int currentTime + 100) (of_int currentTime + 1000)) w2 = (Inr timeStart, w3)"
    and e: "(if pp_generatePastProposal generateParams
            then lodash_random env (of_int currentTime / 2 + 100) (of_int currentTime - 1000)
            else lodash_random env (of_int currentTime + 1001) (of_int currentTime + 2000)) w3 = (Inr timeEnd, w4)"
    and r: "pcr_timeStart proposalCreateRequest = timeStart" "pcr_expiredAt proposalCreateRequest = timeEnd"
    unfolding generateProposalData_def
    by (auto simp: await_Inr Let_def)
  from t clock have now: "2200 \<le> currentTime"
    using new_Date_getTime_value by blast
  then have now': "(2200::rat) \<le> of_int currentTime" by linarith
  show ?thesis
  proof (cases "pp_generatePastProposal generateParams")
    case True
    with s have s': "lodash_random env 1 (of_int currentTime / 2) w2 = (Inr timeStart, w3)"
      by simp
    from True e have e': "lodash_random env (of_int currentTime / 2 + 100) (of_int currentTime - 1000) w3
        = (Inr timeEnd, w4)"
      by simp
    from lodash_random_bounds [OF bounds s'] have "timeStart \<le> max 1 (of_int currentTime / 2)"
      by simp
    moreover from lodash_random_bounds [OF bounds e']
    have "min (of_int currentTime / 2 + 100) (of_int currentTime - 1000) \<le> timeEnd"
      by simp
    ultimately show ?thesis
      using now' r by (simp add: max_def min_def split: if_splits)
  next
    case False
    with s have s': "lodash_random env (of_int currentTime + 100) (of_int currentTime + 1000) w2
        = (Inr timeStart, w3)"
      by simp
    from False e have e': "lodash_random env (of_int currentTime + 1001) (of_int currentTime + 2000) w3
        = (Inr timeEnd, w4)"
      by simp
    from lodash_random_bounds [OF bounds s']
    have "timeStart \<le> max (of_int currentTime + 100) (of_int currentTime + 1000)"
      by simp
    moreover from lodash_random_bounds [OF bounds e']
    have "min (of_int currentTime + 1001) (of_int currentTime + 2000) \<le> timeEnd"
      by simp
    ultimately show ?thesis
      using r by (simp add: max_def min_def split: if_splits)
  qed
qed

lemma example_bounds: "random_within_bounds example_env"
  by (auto simp: random_within_bounds_def example_env_def)

lemma example_clock: "\<forall>n. 2200 \<le> Date_getTime example_env n"
  by (simp add: example_env_def)

lemma example_run:
  "\<exists>r w'. generateProposalData example_env
      \<lparr>pp_listingItemHash = None, pp_generatePastProposal = True, pp_submitter = None\<rparr> example_world
      = (Inr r, w') \<and> pcr_timeStart r = 1100 \<and> pcr_expiredAt r = 1200"
  by (simp add: generateProposalData_def action_defs example_env_def example_world_def
      example_profile_def Let_def)

theorem generateProposalData_timeStart_before_expiredAt_witness:
  "random_within_bounds example_env \<and> (\<forall>n. 2200 \<le> Date_getTime example_env n)
   \<and> (\<exists>r w'. generateProposalData example_env
          \<lparr>pp_listingItemHash = None, pp_generatePastProposal = True, pp_submitter = None\<rparr>
          example_world = (Inr r, w')
        \<and> pcr_timeStart r = 1100 \<and> pcr_expiredAt r = 1200
        \<and> pcr_timeStart r < pcr_expiredAt r)"
proof -
  obtain r w' where run: "generateProposalData example_env
      \<lparr>pp_listingItemHash = None, pp_generatePastProposal = True, pp_submitter = None\<rparr> example_world
      = (Inr r, w')" and v: "pcr_timeStart r = 1100" "pcr_expiredAt r = 1200"
    using example_run by blast
  from generateProposalData_timeStart_before_expiredAt [OF example_bounds example_clock run]
  have "pcr_timeStart r < pcr_expiredAt r" .
  with run v example_bounds example_clock show ?thesis by blast
qed

subsection \<open>Listing items generated with their template\<close>

lemma fold_max_ge: "(a::int) \<le> fold max xs a"
  by (induction xs arbitrary: a) (auto intro: order_trans [OF max.cobounded2])

lemma fold_max_mem: "x \<in> set xs \<Longrightarrow> (x::int) \<le> fold max xs a"
proof (induction xs arbitrary: a)
  case Nil
  then show ?case by simp
next
  case (Cons y ys)
  show ?case
  proof (cases "x = y")
    case True
    have "y \<le> max y a" by simp
    also have "\<dots> \<le> fold max ys (max y a)" by (rule fold_max_ge)
    finally show ?thesis using True by simp
  next
    case False
    with Cons show ?thesis by simp
  qed
qed

lemma next_id_fresh: "x \<in> set ids \<Longrightarrow> x < next_id ids"
  using fold_max_mem [of x ids 0] by (simp add: next_id_def)


lemma find_fresh:
  assumes "\<forall>y \<in> set xs. \<not> P y" and "P x"
  shows "find P (xs @ [x]) = Some x"
  using assms by (induction xs) auto

lemma preserves_generatePaymentInformationData:
  "preserves tables (generatePaymentInformationData env a b)"
  unfolding generatePaymentInformationData_def
  by (intro preserves_await preserves_if preserves_lodash_random preserves_Faker_string
      preserves_getNewAddress preserves_resolve)

lemma preserves_generated:
  "preserves tables (generateItemInformationData env)"
  "preserves tables (generateMessagingInformationData env)"
  "preserves tables (generateListingItemObjectsData env)"
  unfolding generateItemInformationData_def generateMessagingInformationData_def
    generateListingItemObjectsData_def
  by (intro preserves_await preserves_reading preserves_resolve)+

lemma preserves_generateListingItemTemplateData:
  "preserves tables (generateListingItemTemplateData env p)"
  unfolding generateListingItemTemplateData_def
  by (intro preserves_await preserves_if preserves_generated preserves_generatePaymentInformationData
      preserves_resolve) (auto split: option.splits)

lemma await_preserved:
  assumes "await m f w = (Inr r, w')" and "preserves g m"
  shows "\<exists>x w1. m w = (Inr x, w1) \<and> g w1 = g w \<and> f x w1 = (Inr r, w')"
  using assms by (auto simp: await_Inr dest: preservesD)


lemma with_related_simps [simp]:
  "ListingItemTemplate_id (with_related w t) = ListingItemTemplate_id t"
  "ListingItemTemplate_hash (with_related w t) = ListingItemTemplate_hash t"
  "ListingItemTemplate_data (with_related w t) = ListingItemTemplate_data t"
  "ListingItemTemplate_Profile (with_related w t) = ListingItemTemplate_Profile t"
  "ListingItemTemplate_ListingItems (with_related w t) =
     filter (\<lambda>i. lcr_listing_item_template_id (ListingItem_data i) = Some (ListingItemTemplate_id t))
       (listing_items w)"
  by (simp_all add: with_related_def)









lemma nat_1_Suc: "nat 1 = Suc 0"
  by simp


subsection \<open>generateOrders\<close>

lemma preserves_bids_orders: "preserves tables m \<Longrightarrow> preserves bids_orders m"
  by (auto simp: preserves_def tables_def bids_orders_def)

lemma preserves_listing_services:
  "preserves bids_orders (listingItemTemplateService_create env req)"
  "preserves bids_orders (listingItemService_create env lreq)"
  "preserves tables (listingItemTemplateService_findOne i)"
  "preserves tables (listingItemTemplateService_findOneByHash h)"
  "preserves tables (listingItemService_findOneByHash h)"
  by (auto simp: preserves_def bids_orders_def tables_def listingItemTemplateService_create_def
      listingItemService_create_def listingItemTemplateService_findOne_def
      listingItemTemplateService_findOneByHash_def listingItemService_findOneByHash_def
      Let_def split: sum.splits option.splits)

lemma preserves_case_option:
  "preserves f m \<Longrightarrow> (\<And>x. preserves f (g x)) \<Longrightarrow> preserves f (case_option m g opt)"
  by (cases opt) simp_all

lemma preserves_generateResponse: "preserves f (generateResponse i items b)"
  by (simp add: generateResponse_def)

lemma preserves_first_item: "preserves f (first_item r)"
  by (simp add: first_item_def split: generate_response.splits list.splits)

lemma preserves_generateListingItemTemplates:
  "preserves bids_orders (generateListingItemTemplates env n b p)"
  unfolding generateListingItemTemplates_def generateListingItemTemplate_def Let_def
  by (intro preserves_await preserves_for_loop preserves_if preserves_case_option
      preserves_generateResponse preserves_resolve preserves_settle preserves_listing_services
      preserves_bids_orders [OF preserves_generateListingItemTemplateData]
      preserves_bids_orders [OF preserves_new_Date_getTime]
      preserves_bids_orders [OF preserves_listing_services(3)])

lemma preserves_generateListingItemData:
  "preserves tables (generateListingItemData env p)"
  unfolding generateListingItemData_def Let_def
  by (intro preserves_await preserves_if preserves_case_option preserves_resolve preserves_settle
      preserves_getNewAddress preserves_generated preserves_generatePaymentInformationData
      preserves_new_Date_getTime preserves_listing_services)

lemma preserves_generateListingItems:
  "preserves bids_orders (generateListingItems env n b p)"
  unfolding generateListingItems_def generateListingItem_def
  by (intro preserves_await preserves_for_loop preserves_generateResponse preserves_settle
      preserves_listing_services preserves_bids_orders [OF preserves_generateListingItemData])

lemma preserves_generateBidData: "preserves tables (generateBidData env p)"
  unfolding generateBidData_def Let_def
  by (intro preserves_await preserves_generateAddressesData)
     (auto intro!: preserves_await preserves_if preserves_case_option preserves_getNewAddress
        preserves_listing_services split: list.splits)

lemma for_loop_appends:
  assumes "for_loop n body items w = (Inr res, w')"
    and "\<And>w x w1. I w \<Longrightarrow> body w = (Inr x, w1) \<Longrightarrow> I w1 \<and> f w1 = f w @ [x] \<and> P x"
    and "I w"
  shows "\<exists>new. res = items @ new \<and> length new = n \<and> f w' = f w @ new
             \<and> (\<forall>x \<in> set new. P x) \<and> I w'"
  using assms(1,3)
proof (induction n arbitrary: items w)
  case 0
  then show ?case by simp
next
  case (Suc n)
  from Suc.prems(1) obtain x w1 where b: "body w = (Inr x, w1)"
    and r: "for_loop n body (items @ [x]) w1 = (Inr res, w')"
    by (auto simp: await_Inr)
  from assms(2) [OF Suc.prems(2) b] have s: "I w1" "f w1 = f w @ [x]" "P x" by auto
  from Suc.IH [OF r s(1)] obtain new where
    "res = (items @ [x]) @ new" "length new = n" "f w' = f w1 @ new" "\<forall>x \<in> set new. P x" "I w'"
    by blast
  with s show ?case by (intro exI [of _ "x # new"]) simp
qed

lemma generateBidData_action:
  assumes run: "generateBidData env generateParams w = (Inr bidCreateRequest, w')"
  shows "bcr_action bidCreateRequest
           = (case bp_action generateParams of Some a \<Rightarrow> a | None \<Rightarrow> MPA_BID)"
proof -
  define relate where "relate = (\<lambda>request :: BidCreateRequest.
     if truthy_string (bp_listingItemHash generateParams) then
       await (listingItemService_findOneByHash (the (bp_listingItemHash generateParams)))
         (\<lambda>listingItemModel.
            case listingItemModel of
              None \<Rightarrow> resolve request
            | Some listingItem \<Rightarrow>
                resolve (request\<lparr>bcr_listing_item_id := Some (ListingItem_id listingItem)\<rparr>))
     else resolve request)"
  have relate: "\<And>request w2. relate request w2 = (Inr bidCreateRequest, w')
      \<Longrightarrow> bcr_action bidCreateRequest = bcr_action request"
    unfolding relate_def by (auto simp: await_Inr split: if_splits option.splits)
  have shape: "generateBidData env generateParams =
     await (generateAddressesData env 1) (\<lambda>addresses.
     (case addresses of
        [] \<Rightarrow> reject (Error (str ''TypeError'')
                        (str ''Cannot set property '' @ quoted (str ''profile_id'')
                          @ str '' of undefined''))
      | address # rest \<Rightarrow>
     await (settle (profileService_getDefault env)) (\<lambda>defaultProfile.
     await (if truthy_string (bp_bidder generateParams)
            then resolve (JStr (the (bp_bidder generateParams)))
            else getNewAddress env [] True) (\<lambda>bidder.
       relate \<lparr>bcr_action = (case bp_action generateParams of Some a \<Rightarrow> a | None \<Rightarrow> MPA_BID),
            bcr_address = set_member address (str ''profile_id'') (JNum (of_int (Profile_id defaultProfile))),
            bcr_bidder = bidder, bcr_bidDatas = bidDatas, bcr_listing_item_id = None\<rparr>))))"
    unfolding generateBidData_def relate_def Let_def ..
  from run obtain addresses w1 where
    r1: "(case addresses of
        [] \<Rightarrow> reject (Error (str ''TypeError'')
                        (str ''Cannot set property '' @ quoted (str ''profile_id'')
                          @ str '' of undefined''))
      | address # rest \<Rightarrow>
     await (settle (profileService_getDefault env)) (\<lambda>defaultProfile.
     await (if truthy_string (bp_bidder generateParams)
            then resolve (JStr (the (bp_bidder generateParams)))
            else getNewAddress env [] True) (\<lambda>bidder.
       relate \<lparr>bcr_action = (case bp_action generateParams of Some a \<Rightarrow> a | None \<Rightarrow> MPA_BID),
            bcr_address = set_member address (str ''profile_id'') (JNum (of_int (Profile_id defaultProfile))),
            bcr_bidder = bidder, bcr_bidDatas = bidDatas, bcr_listing_item_id = None\<rparr>))) w1
       = (Inr bidCreateRequest, w')"
    unfolding shape await_Inr by blast
  from r1 obtain address rest where ad: "addresses = address # rest"
    by (cases addresses) auto
  from r1 ad obtain defaultProfile w1' where
    p: "settle (profileService_getDefault env) w1 = (Inr defaultProfile, w1')"
    and r1': "await (if truthy_string (bp_bidder generateParams)
            then resolve (JStr (the (bp_bidder generateParams)))
            else getNewAddress env [] True) (\<lambda>bidder.
       relate \<lparr>bcr_action = (case bp_action generateParams of Some a \<Rightarrow> a | None \<Rightarrow> MPA_BID),
            bcr_address = set_member address (str ''profile_id'') (JNum (of_int (Profile_id defaultProfile))),
            bcr_bidder = bidder, bcr_bidDatas = bidDatas, bcr_listing_item_id = None\<rparr>) w1'
          = (Inr bidCreateRequest, w')"
    by (simp add: await_Inr [where m = "settle (profileService_getDefault env)"]) blast
  from r1' obtain bidder w2 where
    r2: "relate \<lparr>bcr_action = (case bp_action generateParams of Some a \<Rightarrow> a | None \<Rightarrow> MPA_BID),
            bcr_address = set_member address (str ''profile_id'') (JNum (of_int (Profile_id defaultProfile))),
            bcr_bidder = bidder, bcr_bidDatas = bidDatas, bcr_listing_item_id = None\<rparr> w2
          = (Inr bidCreateRequest, w')"
    unfolding await_Inr by blast
  from relate [OF r2] show ?thesis by simp
qed

lemma generateBid_round:
  assumes "generateBid env p w = (Inr bid, w1)"
  shows "bids w1 = bids w @ [bid] \<and> orders w1 = orders w
       \<and> Bid_id bid = next_id (map Bid_id (bids w))
       \<and> Bid_action bid = (case bp_action p of Some a \<Rightarrow> a | None \<Rightarrow> MPA_BID)"
proof -
  from await_preserved [OF assms [unfolded generateBid_def] preserves_generateBidData]
  obtain req w0 where d: "generateBidData env p w = (Inr req, w0)"
    and t: "tables w0 = tables w"
    and c: "bidService_create req w0 = (Inr bid, w1)"
    by blast
  have a: "bcr_action req = (case bp_action p of Some a \<Rightarrow> a | None \<Rightarrow> MPA_BID)"
    using d by (rule generateBidData_action)
  from c t a show ?thesis
    by (auto simp: bidService_create_def Let_def tables_def)
qed

lemma generateBids_one:
  assumes run: "generateBids env 1 True p w = (Inr r, w')"
  shows "\<exists>bid. r = Items [bid] \<and> bids w' = bids w @ [bid] \<and> orders w' = orders w
             \<and> Bid_id bid = next_id (map Bid_id (bids w))
             \<and> Bid_action bid = (case bp_action p of Some a \<Rightarrow> a | None \<Rightarrow> MPA_BID)"
proof -
  define templ where "templ =
     (if bp_generateListingItemTemplate p then
               await (generateListingItemTemplates env 1 True (new_GenerateListingItemTemplateParams env))
                 (\<lambda>listingItemTemplates.
               await (first_item listingItemTemplates) (\<lambda>listingItemTemplate.
                 resolve ((new_GenerateListingItemParams env)
                            \<lparr>lp_listingItemTemplateHash :=
                               Some (ListingItemTemplate_hash listingItemTemplate)\<rparr>)))
             else resolve (new_GenerateListingItemParams env))"
  define item where "item = (\<lambda>listingItemGenerateParams :: GenerateListingItemParams.
     if bp_generateListingItem p then
                await (generateListingItems env 1 True (listingItemGenerateParams
                        \<lparr>lp_seller := (if truthy_string (bp_listingItemSeller p)
                                       then bp_listingItemSeller p else None)\<rparr>)) (\<lambda>listingItems.
                await (first_item listingItems) (\<lambda>listingItem.
                  resolve (p\<lparr>bp_listingItemHash := Some (ListingItem_hash listingItem)\<rparr>)))
             else resolve p)"
  have shape: "generateBids env 1 True p =
      await templ (\<lambda>listingItemGenerateParams.
      await (item listingItemGenerateParams) (\<lambda>generateParams.
      await (for_loop (nat 1) (generateBid env generateParams) []) (\<lambda>items.
        generateResponse Bid_id items True)))"
    unfolding generateBids_def templ_def item_def Let_def ..
  have pt: "preserves bids_orders templ"
    unfolding templ_def
    by (intro preserves_if preserves_await preserves_generateListingItemTemplates
        preserves_first_item preserves_resolve)
  have pi: "\<And>q. preserves bids_orders (item q)"
    unfolding item_def
    by (intro preserves_if preserves_await preserves_generateListingItems
        preserves_first_item preserves_resolve)
  from await_preserved [OF run [unfolded shape] pt] obtain q w1 where
    t1: "bids_orders w1 = bids_orders w"
    and r1: "await (item q) (\<lambda>generateParams.
      await (for_loop (nat 1) (generateBid env generateParams) []) (\<lambda>items.
        generateResponse Bid_id items True)) w1 = (Inr r, w')"
    by blast
  from await_preserved [OF r1 pi] obtain p' w2 where
    i: "item q w1 = (Inr p', w2)"
    and t2: "bids_orders w2 = bids_orders w1"
    and r2: "await (for_loop (nat 1) (generateBid env p') []) (\<lambda>items.
        generateResponse Bid_id items True) w2 = (Inr r, w')"
    by blast
  have act: "bp_action p' = bp_action p"
    using i unfolding item_def by (auto simp: await_Inr split: if_splits)
  from r2 obtain bid where b: "generateBid env p' w2 = (Inr bid, w')" and r: "r = Items [bid]"
    by (auto simp: await_Inr generateResponse_def)
  from generateBid_round [OF b] t1 t2 act r show ?thesis
    by (auto simp: bids_orders_def)
qed

lemma bidService_findOne_Inr:
  "bidService_findOne i w = (Inr bid, w') \<longleftrightarrow>
     find (\<lambda>b. Some (Bid_id b) = i) (bids w) = Some bid \<and> w' = w"
  by (auto simp: bidService_findOne_def split: option.splits)

lemma settle_Inr: "settle x w = (Inr y, w') \<longleftrightarrow> x = Inr y \<and> w' = w"
  by (auto simp: settle_def)

lemma generateOrder_round:
  assumes found: "find (\<lambda>b. Some (Bid_id b) = op_bidId p) (bids w) = Some bid"
    and run: "generateOrder env p w = (Inr order, w1)"
  shows "bids w1 = bids w \<and> orders w1 = orders w @ [order]
       \<and> (\<exists>orderCreateRequest. orderFactory_getModelFromBid env bid = Inr orderCreateRequest
              \<and> Order_data order = (if op_generateOrderItem p then orderCreateRequest
                                     else orderCreateRequest\<lparr>ocr_orderItems := []\<rparr>))"
proof -
  from run obtain req w0 where d: "generateOrderData env p w = (Inr req, w0)"
    and c: "orderService_create req w0 = (Inr order, w1)"
    by (auto simp: generateOrder_def await_Inr)
  from d obtain b wa where f: "bidService_findOne (op_bidId p) w = (Inr b, wa)"
    and r: "await (settle (orderFactory_getModelFromBid env b)) (\<lambda>orderCreateRequest.
       if \<not> op_generateOrderItem p
       then resolve (orderCreateRequest\<lparr>ocr_orderItems := []\<rparr>)
       else resolve orderCreateRequest) wa = (Inr req, w0)"
    unfolding generateOrderData_def await_Inr [where m = "bidService_findOne (op_bidId p)"]
    by blast
  from f found have b: "b = bid" "wa = w"
    by (simp_all add: bidService_findOne_Inr)
  from r obtain ocr wb where m: "settle (orderFactory_getModelFromBid env b) wa = (Inr ocr, wb)"
    and q: "(if \<not> op_generateOrderItem p
       then resolve (ocr\<lparr>ocr_orderItems := []\<rparr>)
       else resolve ocr) wb = (Inr req, w0)"
    unfolding await_Inr by blast
  from m b have m': "orderFactory_getModelFromBid env bid = Inr ocr" and wb: "wb = w"
    by (simp_all only: settle_Inr)
  from q wb have req: "req = (if op_generateOrderItem p then ocr else ocr\<lparr>ocr_orderItems := []\<rparr>)"
    and w0: "w0 = w"
    by (auto split: if_splits)
  from c w0 have "bids w1 = bids w" "orders w1 = orders w @ [order]" "Order_data order = req"
    by (auto simp: orderService_create_def Let_def)
  with m' req show ?thesis by blast
qed

text \<open>
  Claim C4. A call of \<open>generateOrders\<close> that returns has, with
  \<open>generateParams.generateBid\<close>, added exactly one bid, of action \<open>MPA_ACCEPT\<close>, and
  otherwise added none and looked the bid up by \<open>generateParams.bidId\<close>; in both cases
  \<open>generateParams.bidId\<close> ends as the id of that bid, under which the bid service
  finds it, and the call has added \<open>amount\<close> orders, each created from the request the
  order factory builds from that bid (its order items emptied without
  \<open>generateOrderItem\<close>).
\<close>

theorem generateOrders_built_from_one_bid:
  assumes run: "generateOrders env amount withRelated generateParams w
                  = (Inr (response, generateParams'), w')"
  shows "\<exists>bid new_orders.
      (if op_generateBid generateParams
       then bids w' = bids w @ [bid] \<and> Bid_action bid = MPA_ACCEPT
       else bids w' = bids w \<and> bidService_findOne (op_bidId generateParams) w = (Inr bid, w))
    \<and> op_bidId generateParams' = Some (Bid_id bid)
    \<and> bidService_findOne (op_bidId generateParams') w' = (Inr bid, w')
    \<and> orders w' = orders w @ new_orders \<and> length new_orders = nat amount
    \<and> (\<forall>order \<in> set new_orders. \<exists>orderCreateRequest.
           orderFactory_getModelFromBid env bid = Inr orderCreateRequest
           \<and> Order_data order = (if op_generateOrderItem generateParams then orderCreateRequest
                                  else orderCreateRequest\<lparr>ocr_orderItems := []\<rparr>))
    \<and> response = (if withRelated then Items new_orders else ItemIds (map Order_id new_orders))"
proof -
  define getBid where "getBid =
     (if op_generateBid generateParams then
               await (generateBids env 1 True ((new_GenerateBidParams env)
                       \<lparr>bp_generateListingItemTemplate := op_generateListingItemTemplate generateParams,
                        bp_generateListingItem := op_generateListingItem generateParams,
                        bp_action := Some MPA_ACCEPT,
                        bp_listingItemSeller := op_listingItemSeller generateParams\<rparr>))
                 (\<lambda>bids. first_item bids)
            else bidService_findOne (op_bidId generateParams))"
  have shape: "generateOrders env amount withRelated generateParams =
     await getBid (\<lambda>bid.
     await (for_loop (nat amount) (generateOrder env (generateParams\<lparr>op_bidId := Some (Bid_id bid)\<rparr>)) [])
       (\<lambda>items.
     await (generateResponse Order_id items withRelated) (\<lambda>response.
       resolve (response, generateParams\<lparr>op_bidId := Some (Bid_id bid)\<rparr>))))"
    unfolding generateOrders_def getBid_def Let_def ..
  from run [unfolded shape] obtain bid w1 items where
    g: "getBid w = (Inr bid, w1)"
    and loop: "for_loop (nat amount)
                 (generateOrder env (generateParams\<lparr>op_bidId := Some (Bid_id bid)\<rparr>)) [] w1
               = (Inr items, w')"
    and resp: "response = (if withRelated then Items items else ItemIds (map Order_id items))"
    and p': "generateParams' = generateParams\<lparr>op_bidId := Some (Bid_id bid)\<rparr>"
    by (auto simp: await_Inr generateResponse_def split: if_splits)
  have first: "(if op_generateBid generateParams
       then bids w1 = bids w @ [bid] \<and> Bid_action bid = MPA_ACCEPT
       else bids w1 = bids w \<and> bidService_findOne (op_bidId generateParams) w = (Inr bid, w))
     \<and> orders w1 = orders w
     \<and> find (\<lambda>b. Some (Bid_id b) = Some (Bid_id bid)) (bids w1) = Some bid"
  proof (cases "op_generateBid generateParams")
    case True
    with g obtain r w0 where gb: "generateBids env 1 True ((new_GenerateBidParams env)
                       \<lparr>bp_generateListingItemTemplate := op_generateListingItemTemplate generateParams,
                        bp_generateListingItem := op_generateListingItem generateParams,
                        bp_action := Some MPA_ACCEPT,
                        bp_listingItemSeller := op_listingItemSeller generateParams\<rparr>) w = (Inr r, w0)"
      and fi: "first_item r w0 = (Inr bid, w1)"
      unfolding getBid_def by (auto simp: await_Inr)
    from generateBids_one [OF gb] obtain b where
      r: "r = Items [b]" and bs: "bids w0 = bids w @ [b]" and os: "orders w0 = orders w"
      and bid_id: "Bid_id b = next_id (map Bid_id (bids w))" and a: "Bid_action b = MPA_ACCEPT"
      by auto
    from fi r have eq: "b = bid" "w1 = w0"
      by (auto simp: first_item_def)
    have "find (\<lambda>x. Some (Bid_id x) = Some (Bid_id bid)) (bids w @ [bid]) = Some bid"
    proof (rule find_fresh)
      show "\<forall>y \<in> set (bids w). \<not> Some (Bid_id y) = Some (Bid_id bid)"
        using next_id_fresh [of _ "map Bid_id (bids w)"] bid_id eq by fastforce
    qed simp
    with True bs os a eq show ?thesis by simp
  next
    case False
    with g have f: "bidService_findOne (op_bidId generateParams) w = (Inr bid, w1)"
      unfolding getBid_def by simp
    then have "find (\<lambda>b. Some (Bid_id b) = op_bidId generateParams) (bids w) = Some bid" and "w1 = w"
      by (simp_all add: bidService_findOne_Inr)
    moreover from this have "op_bidId generateParams = Some (Bid_id bid)"
      by (auto dest: find_Some_iff [THEN iffD1])
    ultimately show ?thesis using False f by simp
  qed
  then have found: "find (\<lambda>b. Some (Bid_id b) = Some (Bid_id bid)) (bids w1) = Some bid"
    by simp
  have round: "bids w2 = bids w1 \<and> orders w2 = orders w @ [x]
          \<and> (\<exists>orderCreateRequest. orderFactory_getModelFromBid env bid = Inr orderCreateRequest
              \<and> Order_data x = (if op_generateOrderItem generateParams then orderCreateRequest
                                     else orderCreateRequest\<lparr>ocr_orderItems := []\<rparr>))"
    if b: "bids w = bids w1"
      and g: "generateOrder env (generateParams\<lparr>op_bidId := Some (Bid_id bid)\<rparr>) w = (Inr x, w2)"
    for w x w2
  proof -
    from found b
    have "find (\<lambda>b. Some (Bid_id b) = op_bidId (generateParams\<lparr>op_bidId := Some (Bid_id bid)\<rparr>))
            (bids w) = Some bid"
      by simp
    from generateOrder_round [OF this g] b show ?thesis by simp
  qed
  from for_loop_appends [where I = "\<lambda>w. bids w = bids w1" and f = orders
      and P = "\<lambda>x. \<exists>orderCreateRequest. orderFactory_getModelFromBid env bid = Inr orderCreateRequest
              \<and> Order_data x = (if op_generateOrderItem generateParams then orderCreateRequest
                                     else orderCreateRequest\<lparr>ocr_orderItems := []\<rparr>)",
      OF loop round]
  obtain new where n: "items = new" "length new = nat amount" "orders w' = orders w1 @ new"
    "\<forall>x \<in> set new. \<exists>orderCreateRequest. orderFactory_getModelFromBid env bid = Inr orderCreateRequest
              \<and> Order_data x = (if op_generateOrderItem generateParams then orderCreateRequest
                                     else orderCreateRequest\<lparr>ocr_orderItems := []\<rparr>)"
    "bids w' = bids w1"
    by auto
  show ?thesis
    using first n resp p' found
    by (intro exI [of _ bid] exI [of _ new]) (auto simp: bidService_findOne_Inr)
qed

lemma example_generateOrders_run:
  "\<exists>response p' w'. generateOrders example_env 2 True example_order_params example_world
      = (Inr (response, p'), w')"
  by (simp add: generateOrders_def generateBids_def generateBid_def generateBidData_def
      generateOrder_def generateOrderData_def generateResponse_def first_item_def
      bidService_create_def bidService_findOne_def orderService_create_def next_id_def
      nat_1_Suc eval_nat_numeral run_defs example_defs example_order_params_def Let_def str_def)

lemma example_generateOrders_lookup_run:
  "\<exists>response p' w'. generateOrders example_env 1 False
        (example_order_params\<lparr>op_generateBid := False, op_bidId := Some 3\<rparr>) example_world_with_bid
      = (Inr (response, p'), w')"
  by (simp add: generateOrders_def generateOrder_def generateOrderData_def generateResponse_def
      bidService_findOne_def orderService_create_def next_id_def
      nat_1_Suc run_defs example_defs example_order_params_def example_world_with_bid_def
      example_bid_def Let_def)

theorem generateOrders_built_from_one_bid_witness:
  "(\<exists>response p' w' bid new_orders.
      generateOrders example_env 2 True example_order_params example_world = (Inr (response, p'), w')
      \<and> op_generateBid example_order_params
      \<and> bids w' = bids example_world @ [bid] \<and> Bid_action bid = MPA_ACCEPT
      \<and> op_bidId p' = Some (Bid_id bid)
      \<and> orders w' = orders example_world @ new_orders \<and> length new_orders = 2
      \<and> response = Items new_orders)
   \<and> (\<exists>response p' w' new_orders.
      generateOrders example_env 1 False
        (example_order_params\<lparr>op_generateBid := False, op_bidId := Some 3\<rparr>) example_world_with_bid
        = (Inr (response, p'), w')
      \<and> bids w' = bids example_world_with_bid
      \<and> bidService_findOne (Some 3) example_world_with_bid = (Inr example_bid, example_world_with_bid)
      \<and> op_bidId p' = Some (Bid_id example_bid)
      \<and> orders w' = orders example_world_with_bid @ new_orders \<and> length new_orders = 1
      \<and> response = ItemIds (map Order_id new_orders))"
proof -
  obtain response p' w' where run:
    "generateOrders example_env 2 True example_order_params example_world = (Inr (response, p'), w')"
    using example_generateOrders_run by blast
  have flag: "op_generateBid example_order_params"
    by (simp add: example_order_params_def)
  from generateOrders_built_from_one_bid [OF run] flag
  obtain bid new_orders where
    "bids w' = bids example_world @ [bid]" "Bid_action bid = MPA_ACCEPT"
    "op_bidId p' = Some (Bid_id bid)" "orders w' = orders example_world @ new_orders"
    "length new_orders = 2" "response = Items new_orders"
    by auto
  with run flag have 1: "\<exists>response p' w' bid new_orders.
      generateOrders example_env 2 True example_order_params example_world = (Inr (response, p'), w')
      \<and> op_generateBid example_order_params
      \<and> bids w' = bids example_world @ [bid] \<and> Bid_action bid = MPA_ACCEPT
      \<and> op_bidId p' = Some (Bid_id bid)
      \<and> orders w' = orders example_world @ new_orders \<and> length new_orders = 2
      \<and> response = Items new_orders"
    by blast
  obtain response2 p2 w2 where run2:
    "generateOrders example_env 1 False
        (example_order_params\<lparr>op_generateBid := False, op_bidId := Some 3\<rparr>) example_world_with_bid
      = (Inr (response2, p2), w2)"
    using example_generateOrders_lookup_run by blast
  have f: "bidService_findOne (Some 3) example_world_with_bid = (Inr example_bid, example_world_with_bid)"
    by (simp add: bidService_findOne_def example_world_with_bid_def example_bid_def)
  from generateOrders_built_from_one_bid [OF run2] f
  obtain new2 where
    "bids w2 = bids example_world_with_bid" "op_bidId p2 = Some (Bid_id example_bid)"
    "orders w2 = orders example_world_with_bid @ new2" "length new2 = 1"
    "response2 = ItemIds (map Order_id new2)"
    by auto
  with run2 f have 2: "\<exists>response p' w' new_orders.
      generateOrders example_env 1 False
        (example_order_params\<lparr>op_generateBid := False, op_bidId := Some 3\<rparr>) example_world_with_bid
        = (Inr (response, p'), w')
      \<and> bids w' = bids example_world_with_bid
      \<and> bidService_findOne (Some 3) example_world_with_bid = (Inr example_bid, example_world_with_bid)
      \<and> op_bidId p' = Some (Bid_id example_bid)
      \<and> orders w' = orders example_world_with_bid @ new_orders \<and> length new_orders = 1
      \<and> response = ItemIds (map Order_id new_orders)"
    by blast
  from 1 2 show ?thesis by (rule conjI)
qed

subsection \<open>BidActionService\<close>

text \<open>
  Claim C1. For an event whose bid message names, by its hash, a listing item that
  exists, and that passes the validation, \<open>processBidReceivedEvent\<close> resolves with a
  bid that it has stored (the bid table has grown by it, and the bid service finds it
  by its id), whose action is the action of the bid message and whose listing item is
  the one the hash resolves to.
\<close>

theorem processBidReceivedEvent_creates_bid:
  assumes found: "fst (listingItemService_findOneByHash
                         (bm_item (mm_mpaction (ev_marketplaceMessage event))) w)
                    = Inr (Some listingItem)"
    and valid: "valid event"
  shows "\<exists>bid w'. processBidReceivedEvent valid event w = (Inr bid, w')
       \<and> Bid_action bid = bm_action (mm_mpaction (ev_marketplaceMessage event))
       \<and> Bid_listing_item_id bid = Some (ListingItem_id listingItem)
       \<and> bids w' = bids w @ [bid]
       \<and> bidService_findOne (Some (Bid_id bid)) w' = (Inr bid, w')"
proof -
  define bid where "bid =
     \<lparr>Bid_id = next_id (map Bid_id (bids w)),
      Bid_action = bm_action (mm_mpaction (ev_marketplaceMessage event)),
      Bid_bidder = JStr (smsg_from (ev_smsgMessage event)),
      Bid_listing_item_id = Some (ListingItem_id listingItem),
      Bid_ShippingAddress = JUndefined,
      Bid_BidDatas = bm_objects (mm_mpaction (ev_marketplaceMessage event))\<rparr>"
  from found valid
  have run: "processBidReceivedEvent valid event w = (Inr bid, w\<lparr>bids := bids w @ [bid]\<rparr>)"
    by (simp add: processBidReceivedEvent_def listingItemService_findOneByHash_def await_def
        bidService_create_def bid_def Let_def)
  have "find (\<lambda>b. Some (Bid_id b) = Some (Bid_id bid)) (bids w @ [bid]) = Some bid"
  proof (rule find_fresh)
    show "\<forall>y \<in> set (bids w). \<not> Some (Bid_id y) = Some (Bid_id bid)"
      using next_id_fresh [of _ "map Bid_id (bids w)"] by (fastforce simp: bid_def)
  qed simp
  then have "bidService_findOne (Some (Bid_id bid)) (w\<lparr>bids := bids w @ [bid]\<rparr>)
      = (Inr bid, w\<lparr>bids := bids w @ [bid]\<rparr>)"
    by (simp add: bidService_findOne_Inr)
  with run show ?thesis
    by (intro exI [of _ bid] exI [of _ "w\<lparr>bids := bids w @ [bid]\<rparr>"]) (simp add: bid_def)
qed

theorem processBidReceivedEvent_creates_bid_witness:
  "fst (listingItemService_findOneByHash (bm_item (mm_mpaction (ev_marketplaceMessage example_event)))
          example_world_with_listing) = Inr (Some example_listing_item)
   \<and> (\<exists>bid w'. processBidReceivedEvent (\<lambda>event. True) example_event example_world_with_listing
                   = (Inr bid, w')
          \<and> Bid_action bid = MPA_BID \<and> Bid_listing_item_id bid = Some 7
          \<and> bids w' = [bid])"
proof -
  have f: "fst (listingItemService_findOneByHash (bm_item (mm_mpaction (ev_marketplaceMessage example_event)))
          example_world_with_listing) = Inr (Some example_listing_item)"
    by (simp add: listingItemService_findOneByHash_def example_event_def
        example_world_with_listing_def example_listing_item_def)
  from processBidReceivedEvent_creates_bid [where valid = "\<lambda>event. True", OF f]
  obtain bid w' where
    "processBidReceivedEvent (\<lambda>event. True) example_event example_world_with_listing = (Inr bid, w')"
    "Bid_action bid = bm_action (mm_mpaction (ev_marketplaceMessage example_event))"
    "Bid_listing_item_id bid = Some (ListingItem_id example_listing_item)"
    "bids w' = bids example_world_with_listing @ [bid]"
    by auto
  with f show ?thesis
    by (auto simp: example_event_def example_listing_item_def example_world_with_listing_def
        example_world_def)
qed

end
